theory Spec2Isabelle
  imports Main "HOL-Library.AList" "HOL-Library.Sublist" "HOL-Library.Word"
begin

section \<open>Data model of protect-stream.ts\<close>

text \<open>
  The streaming delegate of \<^verbatim>\<open>src/protect-stream.ts\<close> keeps two registries,
  \<^verbatim>\<open>ongoingSessions\<close> and \<^verbatim>\<open>pendingSessions\<close>, both JavaScript objects indexed
  by the session id. They are modelled as association lists in insertion order:
  \<^verbatim>\<open>obj[k] = v\<close> is \<open>AList.update\<close> (replace in place, else append),
  \<^verbatim>\<open>delete obj[k]\<close> is \<open>AList.delete\<close>, \<^verbatim>\<open>obj[k]\<close> is \<open>map_of\<close> (\<open>None\<close> for
  \<^verbatim>\<open>undefined\<close>) and \<^verbatim>\<open>Object.keys(obj)\<close> is the list of keys. A JavaScript object has each
  key once: \<open>distinct (map fst al)\<close>. Session ids are the UUID strings that HomeKit sends:
  keys that look like array indices (which \<^verbatim>\<open>Object.keys\<close> would list first) and names
  inherited from \<^verbatim>\<open>Object.prototype\<close> are outside the model.

  Numbers are \<open>int\<close> (ports, SSRCs, bit rates; \<^verbatim>\<open>-1\<close> marks an unused port), a
  \<^verbatim>\<open>Buffer\<close> is a list of bytes.
\<close>

type_synonym Buffer = "8 word list"

datatype SRTPCryptoSuites = AES_CM_128_HMAC_SHA1_80 | AES_CM_256_HMAC_SHA1_80 | NONE

text \<open>
  Handles of the two collaborators whose classes live in \<^verbatim>\<open>protect-rtp.ts\<close> and
  \<^verbatim>\<open>protect-ffmpeg.ts\<close>: a handle is the tuple of constructor arguments
  (\<^verbatim>\<open>new RtpSplitter(this, addressVersion, serverPort, returnPort, twoWayPort)\<close>,
  \<^verbatim>\<open>new FfmpegProcess(this, sessionId, command, returnPort?, callback?)\<close>).
\<close>

datatype RtpSplitter = RtpSplitter string int int int

datatype FfmpegProcess =
  FfmpegProcess (fp_sessionId: string) (fp_command: string)
    (fp_returnPort: "(string \<times> int) option") (fp_callback: bool)

record SessionInfo =
  address :: string
  addressVersion :: string
  videoPort :: int
  videoReturnPort :: int
  videoCryptoSuite :: SRTPCryptoSuites
  videoSRTP :: Buffer
  videoSSRC :: int
  hasLibFdk :: bool
  audioPort :: int
  audioReturnPort :: int
  audioTwoWayPort :: int
  rtpSplitter :: "RtpSplitter option"
  audioCryptoSuite :: SRTPCryptoSuites
  audioSRTP :: Buffer
  audioSSRC :: int

record OngoingSession =
  ffmpeg :: "FfmpegProcess list"
  ongoing_rtpSplitter :: "RtpSplitter option"

record Registries =
  ongoingSessions :: "(string \<times> OngoingSession) list"
  pendingSessions :: "(string \<times> SessionInfo) list"

record TalkbackSettings =
  typeFmt :: string
  samplingRate :: int
  channels :: int
  bindPort :: int

record CameraConfig =
  host :: string
  talkbackSettings :: TalkbackSettings

text \<open>The fields of \<^verbatim>\<open>this\<close> that the handlers read and never write.\<close>

record Delegate =
  name :: string
  videoProcessor :: string
  cameraUrl :: string
  twoWayAudio :: bool
  camera :: CameraConfig
  ffmpegOptions :: "string option"
  debugMode :: bool

record PrepareMedia =
  port :: int
  srtpCryptoSuite :: SRTPCryptoSuites
  srtp_key :: Buffer
  srtp_salt :: Buffer

record PrepareStreamRequest =
  prep_sessionID :: string
  targetAddress :: string
  prep_addressVersion :: string
  prep_video :: PrepareMedia
  prep_audio :: PrepareMedia

record ResponseMedia =
  resp_port :: int
  ssrc :: int
  resp_srtp_key :: Buffer
  resp_srtp_salt :: Buffer

record PrepareStreamResponse =
  resp_address :: "string option"
  resp_video :: ResponseMedia
  resp_audio :: ResponseMedia

record VideoInfo =
  width :: int
  height :: int
  fps :: int
  video_max_bit_rate :: int
  video_pt :: int

record AudioInfo =
  sample_rate :: int
  audio_max_bit_rate :: int
  audio_pt :: int

record StartStreamRequest =
  sessionID :: string
  video :: VideoInfo
  audio :: AudioInfo

record NetworkInterfaceInfo =
  info_address :: string
  family :: string
  internal :: bool

subsection \<open>Errors, effects and the environment\<close>

text \<open>
  \<open>TypeError_undefined p\<close> is the TypeError that JavaScript raises when the property \<open>p\<close>
  is read on \<^verbatim>\<open>undefined\<close> (the wording of its message differs between engines and is not
  modelled); \<open>Thrown\<close> is an exception raised, or a promise rejected, inside a collaborator
  (codec probe, port reservation, interface query, process launch, process stop, splitter
  close).
\<close>

datatype error = TypeError_undefined string | Thrown string

datatype log_level = LInfo | LError

text \<open>
  What a handler does to the outside world, in the order it does it. \<open>ReservePorts v c\<close> is
  a call of \<^verbatim>\<open>RtpUtils.reservePorts\<close> whose first port is bound to the variable \<open>v\<close>,
  \<open>c\<close> its argument (\<open>None\<close> when called without one). \<open>Stop p\<close> and \<open>Close r\<close> record
  that \<^verbatim>\<open>p.stop()\<close> and \<^verbatim>\<open>r.close()\<close> were called. \<open>LogThrown f args e\<close> is
  \<^verbatim>\<open>this.log.error(f, ...args, e)\<close> with the caught value \<open>e\<close> as last argument.
  \<open>Callback\<close> is a call \<^verbatim>\<open>callback()\<close> of the completion callback of a stream request;
  \<open>UnhandledRejection e\<close> is a promise rejected with \<open>e\<close> that nothing awaits or catches.
\<close>

datatype event =
  Log log_level string "string list"
  | LogThrown string "string list" error
  | Callback
  | UnhandledRejection error
  | CodecEnabled string string
  | ReservePorts string "nat option"
  | GenerateSynchronisationSource string
  | NewRtpSplitter RtpSplitter
  | Spawn FfmpegProcess
  | StdinWrite FfmpegProcess string
  | StdinEnd FfmpegProcess
  | Stop FfmpegProcess
  | Close RtpSplitter

text \<open>
  The collaborators are parameters of the model. The three calls that the negotiation
  awaits can reject (\<open>Inl\<close>): \<open>codecEnabled\<close>, the probe of the FFmpeg binary;
  \<open>reservePorts n c\<close>, the first port returned by the \<open>n\<close>-th reservation of a
  negotiation; \<open>networkInterfaceDefault\<close>. \<open>generateSynchronisationSource n\<close> is
  the \<open>n\<close>-th identifier drawn from HomeKit's random generator; \<open>ffmpeg_launch\<close>
  (the constructor of \<^verbatim>\<open>FfmpegProcess\<close>), \<open>ffmpeg_stop\<close> and \<open>splitter_close\<close> say which
  exception, if any, the call raises; \<open>ffmpeg_getStdin\<close> says whether the process has a
  standard input. \<open>networkInterfaceDefault\<close> and \<open>networkInterfaces\<close> are what the
  \<^verbatim>\<open>systeminformation\<close> and \<^verbatim>\<open>os\<close> modules report.
\<close>

record Env =
  codecEnabled :: "string \<Rightarrow> string \<Rightarrow> error + bool"
  reservePorts :: "nat \<Rightarrow> nat option \<Rightarrow> error + int"
  generateSynchronisationSource :: "nat \<Rightarrow> int"
  networkInterfaceDefault :: "error + string"
  networkInterfaces :: "(string \<times> NetworkInterfaceInfo list) list"
  ffmpeg_launch :: "FfmpegProcess \<Rightarrow> error option"
  ffmpeg_getStdin :: "FfmpegProcess \<Rightarrow> bool"
  ffmpeg_stop :: "FfmpegProcess \<Rightarrow> error option"
  splitter_close :: "RtpSplitter \<Rightarrow> error option"

text \<open>
  One run of a handler: the registries it leaves, what it did, and how it ended. For the
  synchronous \<^verbatim>\<open>stopStream\<close> and \<^verbatim>\<open>handleStreamRequest\<close>, \<open>Inl\<close> is an exception
  that reaches the caller and \<open>Inr\<close> a normal return. For the \<^verbatim>\<open>async\<close> handlers
  \<^verbatim>\<open>prepareStream\<close> and \<^verbatim>\<open>startStream\<close>, \<open>Inl\<close> is the rejection of the promise
  they return and \<open>Inr\<close> its fulfilment; \<^verbatim>\<open>prepareStream\<close> calls its callback with the
  response as its last statement, so \<open>Inr response\<close> is also what the callback gets, and a
  rejected negotiation has not called it.
\<close>

record 'r Run =
  after :: Registries
  events :: "event list"
  returned :: "error + 'r"

definition Object_keys :: "(string \<times> 'v) list \<Rightarrow> string list" where
  "Object_keys obj = map fst obj"


section \<open>String helpers\<close>

text \<open>
  \<^verbatim>\<open>"..." + n\<close> for an integral number \<open>n\<close>: its decimal digits, with a minus sign
  when negative. \<^verbatim>\<open>Array.prototype.join\<close> puts the separator between the elements and
  prints \<^verbatim>\<open>undefined\<close> as the empty string. \<^verbatim>\<open>Buffer.toString("base64")\<close> is the
  standard alphabet with \<^verbatim>\<open>=\<close> padding.
\<close>

fun digits :: "nat \<Rightarrow> string" where
  "digits n = (if n < 10 then [''0123456789'' ! n]
               else digits (n div 10) @ [''0123456789'' ! (n mod 10)])"

declare digits.simps [simp del]

definition string_of_number :: "int \<Rightarrow> string" where
  "string_of_number i = (if i < 0 then CHR ''-'' # digits (nat (- i)) else digits (nat i))"

fun join :: "string \<Rightarrow> string list \<Rightarrow> string" where
  "join sep [] = []"
| "join sep [x] = x"
| "join sep (x # y # ys) = x @ sep @ join sep (y # ys)"

definition or_empty :: "string option \<Rightarrow> string" where
  "or_empty s = (case s of None \<Rightarrow> [] | Some t \<Rightarrow> t)"

definition b64 :: "nat \<Rightarrow> char" where
  "b64 n = ''ABCDEFGHIJKLMNOPQRSTUVWXYZabcdefghijklmnopqrstuvwxyz0123456789+/'' ! (n mod 64)"

fun base64 :: "Buffer \<Rightarrow> string" where
  "base64 [] = []"
| "base64 [a] = [b64 (unat a div 4), b64 (unat a mod 4 * 16), CHR ''='', CHR ''='']"
| "base64 [a, b] =
     [b64 (unat a div 4), b64 (unat a mod 4 * 16 + unat b div 16), b64 (unat b mod 16 * 4),
      CHR ''='']"
| "base64 (a # b # c # bs) =
     [b64 (unat a div 4), b64 (unat a mod 4 * 16 + unat b div 16),
      b64 (unat b mod 16 * 4 + unat c div 64), b64 (unat c mod 64)] @ base64 bs"

section \<open>stopStream and the shutdown handler\<close>

text \<open>
  \<^verbatim>\<open>for(const ffmpegProcess of this.ongoingSessions[sessionId].ffmpeg) ffmpegProcess?.stop();\<close>
  The loop ends at the first call that raises; the processes after it are not reached.
\<close>

fun stop_each :: "Env \<Rightarrow> FfmpegProcess list \<Rightarrow> event list \<times> error option" where
  "stop_each env [] = ([], None)"
| "stop_each env (p # ps) =
     (case ffmpeg_stop env p of
        Some e \<Rightarrow> ([Stop p], Some e)
      | None \<Rightarrow> (case stop_each env ps of (evs, r) \<Rightarrow> (Stop p # evs, r)))"

text \<open>\<^verbatim>\<open>this.ongoingSessions[sessionId]?.rtpSplitter?.close();\<close>\<close>

definition close_splitter :: "Env \<Rightarrow> OngoingSession option \<Rightarrow> event list \<times> error option" where
  "close_splitter env s =
     (case s of
        None \<Rightarrow> ([], None)
      | Some session \<Rightarrow>
          (case ongoing_rtpSplitter session of
             None \<Rightarrow> ([], None)
           | Some r \<Rightarrow> ([Close r], splitter_close env r)))"

text \<open>The body of the \<^verbatim>\<open>try\<close> block of \<^verbatim>\<open>stopStream\<close>.\<close>

definition stopStream_try :: "Env \<Rightarrow> Delegate \<Rightarrow> string \<Rightarrow> Registries \<Rightarrow> unit Run" where
  "stopStream_try env this sessionId st =
     (case (case map_of (ongoingSessions st) sessionId of
              None \<Rightarrow> ([], None)
            | Some session \<Rightarrow> stop_each env (ffmpeg session)) of
        (evs1, Some e) \<Rightarrow> \<lparr>after = st, events = evs1, returned = Inl e\<rparr>
      | (evs1, None) \<Rightarrow>
          (case close_splitter env (map_of (ongoingSessions st) sessionId) of
             (evs2, Some e) \<Rightarrow> \<lparr>after = st, events = evs1 @ evs2, returned = Inl e\<rparr>
           | (evs2, None) \<Rightarrow>
               \<lparr>after = st\<lparr>pendingSessions := AList.delete sessionId (pendingSessions st),
                            ongoingSessions := AList.delete sessionId (ongoingSessions st)\<rparr>,
                events = evs1 @ evs2 @ [Log LInfo ''%s: Stopped video stream.'' [name this]],
                returned = Inr ()\<rparr>))"

text \<open>\<^verbatim>\<open>stopStream\<close>: the \<^verbatim>\<open>catch\<close> clause logs the exception and returns.\<close>

definition stopStream :: "Env \<Rightarrow> Delegate \<Rightarrow> string \<Rightarrow> Registries \<Rightarrow> unit Run" where
  "stopStream env this sessionId st =
     (let r = stopStream_try env this sessionId st in
      case returned r of
        Inr u \<Rightarrow> r
      | Inl e \<Rightarrow>
          r\<lparr>events := events r @
                 [LogThrown ''%s: Error occurred terminating video process: %s''
                    [name this] e],
            returned := Inr ()\<rparr>)"

text \<open>
  The handler of \<^verbatim>\<open>APIEvent.SHUTDOWN\<close>:
  \<^verbatim>\<open>for(const session of Object.keys(this.ongoingSessions)) this.stopStream(session);\<close>
  The keys are read once, before the first stop.
\<close>

fun stop_sessions :: "Env \<Rightarrow> Delegate \<Rightarrow> string list \<Rightarrow> Registries \<Rightarrow> Registries \<times> event list" where
  "stop_sessions env this [] st = (st, [])"
| "stop_sessions env this (session # sessions) st =
     (let r = stopStream env this session st in
      case stop_sessions env this sessions (after r) of
        (st', evs) \<Rightarrow> (st', events r @ evs))"

definition shutdown :: "Env \<Rightarrow> Delegate \<Rightarrow> Registries \<Rightarrow> Registries \<times> event list" where
  "shutdown env this st = stop_sessions env this (Object_keys (ongoingSessions st)) st"

section \<open>startStream\<close>

definition videomtu :: int where
  "videomtu = 188 * 3"

definition audiomtu :: int where
  "audiomtu = 188 * 1"

definition beVerbose :: bool where
  "beVerbose = False"

definition ffmpegVideoArgs :: "Delegate \<Rightarrow> StartStreamRequest \<Rightarrow> string" where
  "ffmpegVideoArgs this request = join '' ''
     [[],
      ''-map 0:v'',
      ''-vcodec copy'',
      ''-f rawvideo'',
      ''-pix_fmt yuvj420p'',
      ''-r '' @ string_of_number (fps (video request)),
      or_empty (ffmpegOptions this),
      ''-b:v '' @ string_of_number (video_max_bit_rate (video request)) @ ''k'',
      ''-bufsize '' @ string_of_number (2 * video_max_bit_rate (video request)) @ ''k'',
      ''-maxrate '' @ string_of_number (video_max_bit_rate (video request)) @ ''k'',
      ''-payload_type '' @ string_of_number (video_pt (video request))]"

definition ffmpegVideoStream :: "SessionInfo \<Rightarrow> string" where
  "ffmpegVideoStream sessionInfo = join '' ''
     [[],
      ''-ssrc '' @ string_of_number (videoSSRC sessionInfo),
      ''-f rtp'',
      ''-srtp_out_suite AES_CM_128_HMAC_SHA1_80'',
      ''-srtp_out_params '' @ base64 (videoSRTP sessionInfo),
      ''srtp://'' @ address sessionInfo @ '':'' @ string_of_number (videoPort sessionInfo) @
      ''?rtcpport='' @ string_of_number (videoPort sessionInfo) @
      ''&localrtcpport='' @ string_of_number (videoPort sessionInfo) @
      ''&pkt_size='' @ string_of_number videomtu]"

definition ffmpegAudioArgs :: "StartStreamRequest \<Rightarrow> string" where
  "ffmpegAudioArgs request = join '' ''
     [[],
      ''-map 0:a'',
      ''-acodec libfdk_aac'',
      ''-profile:a aac_eld'',
      ''-flags +global_header'',
      ''-f null'',
      ''-ar '' @ string_of_number (sample_rate (audio request)) @ ''k'',
      ''-b:a '' @ string_of_number (audio_max_bit_rate (audio request)) @ ''k'',
      ''-bufsize '' @ string_of_number (2 * audio_max_bit_rate (audio request)) @ ''k'',
      ''-ac 1'',
      ''-payload_type '' @ string_of_number (audio_pt (audio request))]"

definition ffmpegAudioStream :: "SessionInfo \<Rightarrow> string" where
  "ffmpegAudioStream sessionInfo = join '' ''
     [[],
      ''-ssrc '' @ string_of_number (audioSSRC sessionInfo),
      ''-f rtp'',
      ''-srtp_out_suite AES_CM_128_HMAC_SHA1_80'',
      ''-srtp_out_params '' @ base64 (audioSRTP sessionInfo),
      ''srtp://'' @ address sessionInfo @ '':'' @ string_of_number (audioPort sessionInfo) @
      ''?rtcpport='' @ string_of_number (audioPort sessionInfo) @
      ''&localrtcpport='' @ string_of_number (audioPort sessionInfo) @
      ''&pkt_size='' @ string_of_number audiomtu]"

text \<open>The \<^verbatim>\<open>-loglevel\<close> suffix that both commands get.\<close>

definition loglevel :: "Delegate \<Rightarrow> string" where
  "loglevel this =
     (if beVerbose then '' -loglevel level+verbose''
      else if debugMode this then '' -loglevel level+debug''
      else [])"

text \<open>The command line \<^verbatim>\<open>fcmd\<close> handed to the first FFmpeg process.\<close>

definition fcmd :: "Delegate \<Rightarrow> StartStreamRequest \<Rightarrow> SessionInfo \<Rightarrow> string" where
  "fcmd this request sessionInfo =
     ''-hide_banner -rtsp_transport tcp -i '' @ cameraUrl this
     @ ffmpegVideoArgs this request
     @ ffmpegVideoStream sessionInfo
     @ (if hasLibFdk sessionInfo
        then ffmpegAudioArgs request @ ffmpegAudioStream sessionInfo
        else [])
     @ loglevel this"

definition sdpIpVersion :: "SessionInfo \<Rightarrow> string" where
  "sdpIpVersion sessionInfo = (if addressVersion sessionInfo = ''ipv6'' then ''IP6 '' else ''IP4'')"

definition sdpReturnAudio :: "Delegate \<Rightarrow> SessionInfo \<Rightarrow> string" where
  "sdpReturnAudio this sessionInfo = join [CHR 0x0A]
     [''v=0'',
      ''o=- 0 0 IN '' @ sdpIpVersion sessionInfo @ '' 127.0.0.1'',
      ''s='' @ name this @ '' Audio Talkback'',
      ''c=IN '' @ sdpIpVersion sessionInfo @ '' '' @ address sessionInfo,
      ''t=0 0'',
      ''m=audio '' @ string_of_number (audioTwoWayPort sessionInfo) @ '' RTP/AVP 110'',
      ''b=AS:24'',
      ''a=rtpmap:110 MPEG4-GENERIC/16000/1'',
      ''a=fmtp:110 profile-level-id=1;mode=AAC-hbr;sizelength=13;indexlength=3;indexdeltalength=3; config=F8F0212C00BC00'',
      ''a=crypto:1 AES_CM_128_HMAC_SHA1_80 inline:'' @ base64 (audioSRTP sessionInfo)]"

definition ffmpegReturnAudioCmd :: "Delegate \<Rightarrow> string" where
  "ffmpegReturnAudioCmd this =
     join '' ''
       [''-hide_banner'',
        ''-protocol_whitelist pipe,udp,rtp,file,crypto'',
        ''-f sdp'',
        ''-acodec libfdk_aac'',
        ''-i pipe:0'',
        ''-map 0:a'',
        ''-acodec '' @ typeFmt (talkbackSettings (camera this)),
        ''-flags +global_header'',
        ''-ar '' @ string_of_number (samplingRate (talkbackSettings (camera this))),
        ''-b:a 64k'',
        ''-ac '' @ string_of_number (channels (talkbackSettings (camera this))),
        ''-f adts'',
        ''udp://'' @ host (camera this) @ '':'' @
          string_of_number (bindPort (talkbackSettings (camera this)))]
     @ loglevel this"

text \<open>\<^verbatim>\<open>this.ongoingSessions[request.sessionID].ffmpeg.push(ffmpegReturnAudio)\<close>\<close>

definition push_ffmpeg :: "string \<Rightarrow> FfmpegProcess \<Rightarrow> Registries \<Rightarrow> error + Registries" where
  "push_ffmpeg sessionId p st =
     (case map_of (ongoingSessions st) sessionId of
        None \<Rightarrow> Inl (TypeError_undefined ''ffmpeg'')
      | Some session \<Rightarrow>
          Inr (st\<lparr>ongoingSessions :=
                    AList.update sessionId (session\<lparr>ffmpeg := ffmpeg session @ [p]\<rparr>)
                      (ongoingSessions st)\<rparr>))"

text \<open>
  The second half of \<^verbatim>\<open>startStream\<close>, reached for two-way audio only: the talkback
  process is created, pushed on the session's process list and fed the session description
  on its standard input (\<^verbatim>\<open>getStdin()?.write(...)\<close>: nothing is written to a process
  that has no standard input).
\<close>

definition startTwoWay ::
  "Env \<Rightarrow> Delegate \<Rightarrow> StartStreamRequest \<Rightarrow> SessionInfo \<Rightarrow> Registries \<Rightarrow> event list \<Rightarrow> unit Run"
where
  "startTwoWay env this request sessionInfo st evs =
     (let ffmpegReturnAudio =
            FfmpegProcess (sessionID request) (ffmpegReturnAudioCmd this) None False in
      case ffmpeg_launch env ffmpegReturnAudio of
        Some e \<Rightarrow> \<lparr>after = st, events = evs, returned = Inl e\<rparr>
      | None \<Rightarrow>
          (case push_ffmpeg (sessionID request) ffmpegReturnAudio st of
             Inl e \<Rightarrow> \<lparr>after = st, events = evs @ [Spawn ffmpegReturnAudio], returned = Inl e\<rparr>
           | Inr st' \<Rightarrow>
               \<lparr>after = st',
                events = evs @ [Spawn ffmpegReturnAudio]
                  @ (if ffmpeg_getStdin env ffmpegReturnAudio
                     then [StdinWrite ffmpegReturnAudio (sdpReturnAudio this sessionInfo),
                           StdinEnd ffmpegReturnAudio]
                     else []),
                returned = Inr ()\<rparr>))"

text \<open>
  \<^verbatim>\<open>startStream\<close>, a private \<^verbatim>\<open>async\<close> method. The session is read from
  \<^verbatim>\<open>pendingSessions\<close> without a check; when it is \<^verbatim>\<open>undefined\<close> the first read of
  one of its properties (\<^verbatim>\<open>sessionInfo.videoSSRC\<close>, after the request has been logged)
  raises a TypeError, which rejects the promise of the method. The callback is not called
  here: it is handed to the first FFmpeg process.
\<close>

definition startStream :: "Env \<Rightarrow> Delegate \<Rightarrow> StartStreamRequest \<Rightarrow> Registries \<Rightarrow> unit Run" where
  "startStream env this request st =
     (let received = Log LInfo ''%s: HomeKit video stream request received: %sx%s, %s fps, %s kbps.''
            [name this, string_of_number (width (video request)),
             string_of_number (height (video request)), string_of_number (fps (video request)),
             string_of_number (video_max_bit_rate (video request))] in
      case map_of (pendingSessions st) (sessionID request) of
        None \<Rightarrow>
          \<lparr>after = st, events = [received],
           returned = Inl (TypeError_undefined ''videoSSRC'')\<rparr>
      | Some sessionInfo \<Rightarrow>
          (let ffmpeg' = FfmpegProcess (sessionID request) (fcmd this request sessionInfo)
                 (if hasLibFdk sessionInfo \<and> twoWayAudio this then None
                  else Some (addressVersion sessionInfo, videoReturnPort sessionInfo))
                 True in
           case ffmpeg_launch env ffmpeg' of
             Some e \<Rightarrow> \<lparr>after = st, events = [received], returned = Inl e\<rparr>
           | None \<Rightarrow>
               (let st1 = st\<lparr>ongoingSessions :=
                               AList.update (sessionID request)
                                 \<lparr>ffmpeg = [ffmpeg'],
                                  ongoing_rtpSplitter = rtpSplitter sessionInfo\<rparr>
                                 (ongoingSessions st)\<rparr>;
                    st2 = st1\<lparr>pendingSessions :=
                                AList.delete (sessionID request) (pendingSessions st1)\<rparr>
                in if \<not> hasLibFdk sessionInfo \<or> \<not> twoWayAudio this
                   then \<lparr>after = st2, events = [received, Spawn ffmpeg'], returned = Inr ()\<rparr>
                   else startTwoWay env this request sessionInfo st2 [received, Spawn ffmpeg'])))"

section \<open>handleStreamRequest\<close>

text \<open>
  The three kinds of \<^verbatim>\<open>StreamingRequest\<close>; a reconfigure request has a session id and the
  video parameters, a stop request the session id.
\<close>

datatype StreamingRequest =
  StartRequest StartStreamRequest
  | ReconfigureRequest string VideoInfo
  | StopRequest string

text \<open>
  \<^verbatim>\<open>handleStreamRequest\<close>, the only caller of \<^verbatim>\<open>startStream\<close>. For a start it calls
  \<^verbatim>\<open>this.startStream(request, callback)\<close> and goes on: the promise is neither awaited
  nor given a handler, so its rejection reaches nobody and the function returns normally.
  For the other two kinds it calls the callback itself.
\<close>

definition handleStreamRequest ::
  "Env \<Rightarrow> Delegate \<Rightarrow> StreamingRequest \<Rightarrow> Registries \<Rightarrow> unit Run"
where
  "handleStreamRequest env this request st =
     (case request of
        StartRequest start \<Rightarrow>
          (let r = startStream env this start st in
           \<lparr>after = after r,
            events = events r
              @ (case returned r of Inl e \<Rightarrow> [UnhandledRejection e] | Inr u \<Rightarrow> []),
            returned = Inr ()\<rparr>)
      | ReconfigureRequest sessionId v \<Rightarrow>
          \<lparr>after = st,
           events =
             [Log LInfo ''%s: Ignoring request to reconfigure: %sx%s, %s fps, %s kbps.''
                [name this, string_of_number (width v), string_of_number (height v),
                 string_of_number (fps v), string_of_number (video_max_bit_rate v)],
              Callback],
           returned = Inr ()\<rparr>
      | StopRequest sessionId \<Rightarrow>
          (let r = stopStream env this sessionId st in
           \<lparr>after = after r, events = events r @ [Callback], returned = Inr ()\<rparr>))"

section \<open>prepareStream\<close>

definition getDefaultIpAddress :: "Env \<Rightarrow> string \<Rightarrow> error + string option" where
  "getDefaultIpAddress env addressVersion' =
     (case networkInterfaceDefault env of
        Inl e \<Rightarrow> Inl e
      | Inr interfaceName \<Rightarrow>
          (let externalInfo = map_option (filter (\<lambda>info. \<not> internal info))
                                (map_of (networkInterfaces env) interfaceName);
               preferredFamily = (if addressVersion' = ''ipv6'' then ''IPv6'' else ''IPv4'');
               addressInfo =
                 (case externalInfo of
                    None \<Rightarrow> None
                  | Some infos \<Rightarrow>
                      (case find (\<lambda>info. family info = preferredFamily) infos of
                         Some info \<Rightarrow> Some info
                       | None \<Rightarrow> (case infos of [] \<Rightarrow> None | info # rest \<Rightarrow> Some info)))
           in Inr (case addressInfo of None \<Rightarrow> None | Some info \<Rightarrow> Some (info_address info))))"

text \<open>
  \<^verbatim>\<open>cond ? (await RtpUtils.reservePorts(c))[0] : -1\<close>, as the \<open>n\<close>-th reservation: the
  call is made only under the condition.
\<close>

definition reserve_when ::
  "Env \<Rightarrow> bool \<Rightarrow> nat \<Rightarrow> string \<Rightarrow> nat option \<Rightarrow> event list \<times> (error + int)"
where
  "reserve_when env cond n v c =
     (if cond then ([ReservePorts v c], reservePorts env n c) else ([], Inr (- 1)))"

text \<open>
  \<^verbatim>\<open>prepareStream\<close>. Each awaited call that rejects ends the negotiation there: the
  handler has no \<^verbatim>\<open>try\<close>, and the session is stored and the callback called only in its
  last two statements. The result of \<^verbatim>\<open>getDefaultIpAddress\<close> goes into the response as
  it is, \<^verbatim>\<open>null\<close> (\<open>None\<close>) included.
\<close>

definition prepareStream ::
  "Env \<Rightarrow> Delegate \<Rightarrow> PrepareStreamRequest \<Rightarrow> Registries \<Rightarrow> PrepareStreamResponse Run"
where
  "prepareStream env this request st =
     (case codecEnabled env (videoProcessor this) ''libfdk_aac'' of
        Inl e \<Rightarrow>
          \<lparr>after = st, events = [CodecEnabled (videoProcessor this) ''libfdk_aac''],
           returned = Inl e\<rparr>
      | Inr hasLibFdk' \<Rightarrow>
     (let twoWay = (hasLibFdk' \<and> twoWayAudio this);
          evs1 = [CodecEnabled (videoProcessor this) ''libfdk_aac'',
                  ReservePorts ''audioReturnPort'' None] in
      case reservePorts env 0 None of
        Inl e \<Rightarrow> \<lparr>after = st, events = evs1, returned = Inl e\<rparr>
      | Inr audioReturnPort' \<Rightarrow>
     (case reserve_when env twoWay 1 ''audioServerPort'' None of
        (evs2, Inl e) \<Rightarrow> \<lparr>after = st, events = evs1 @ evs2, returned = Inl e\<rparr>
      | (evs2, Inr audioServerPort) \<Rightarrow>
     (case reserve_when env twoWay 2 ''audioTwoWayPort'' (Some 2) of
        (evs3, Inl e) \<Rightarrow> \<lparr>after = st, events = evs1 @ evs2 @ evs3, returned = Inl e\<rparr>
      | (evs3, Inr audioTwoWayPort') \<Rightarrow>
     (let audioSSRC' = generateSynchronisationSource env 0;
          rtpSplitter' =
            (if twoWay
             then Some (RtpSplitter (prep_addressVersion request) audioServerPort
                          audioReturnPort' audioTwoWayPort')
             else None);
          evs4 = evs1 @ evs2 @ evs3
            @ [GenerateSynchronisationSource ''audioSSRC'']
            @ (if hasLibFdk' then []
               else [Log LInfo ''%s: Audio support disabled. A version of FFmpeg that is compiled with fdk_aac support is required to support audio.''
                       [name this]])
            @ (case rtpSplitter' of None \<Rightarrow> [] | Some r \<Rightarrow> [NewRtpSplitter r])
            @ [ReservePorts ''videoReturnPort'' None] in
      case reservePorts env (if twoWay then 3 else 1) None of
        Inl e \<Rightarrow> \<lparr>after = st, events = evs4, returned = Inl e\<rparr>
      | Inr videoReturnPort' \<Rightarrow>
     (let videoSSRC' = generateSynchronisationSource env 1;
          evs5 = evs4 @ [GenerateSynchronisationSource ''videoSSRC''];
          sessionInfo =
            \<lparr>address = targetAddress request,
             addressVersion = prep_addressVersion request,
             videoPort = port (prep_video request),
             videoReturnPort = videoReturnPort',
             videoCryptoSuite = srtpCryptoSuite (prep_video request),
             videoSRTP = srtp_key (prep_video request) @ srtp_salt (prep_video request),
             videoSSRC = videoSSRC',
             hasLibFdk = hasLibFdk',
             audioPort = port (prep_audio request),
             audioReturnPort = audioReturnPort',
             audioTwoWayPort = audioTwoWayPort',
             rtpSplitter = rtpSplitter',
             audioCryptoSuite = srtpCryptoSuite (prep_audio request),
             audioSRTP = srtp_key (prep_audio request) @ srtp_salt (prep_audio request),
             audioSSRC = audioSSRC'\<rparr> in
      case getDefaultIpAddress env (prep_addressVersion request) of
        Inl e \<Rightarrow> \<lparr>after = st, events = evs5, returned = Inl e\<rparr>
      | Inr currentAddress \<Rightarrow>
          \<lparr>after = st\<lparr>pendingSessions :=
                         AList.update (prep_sessionID request) sessionInfo (pendingSessions st)\<rparr>,
           events = evs5,
           returned =
             Inr \<lparr>resp_address = currentAddress,
                  resp_video =
                    \<lparr>resp_port = videoReturnPort', ssrc = videoSSRC',
                     resp_srtp_key = srtp_key (prep_video request),
                     resp_srtp_salt = srtp_salt (prep_video request)\<rparr>,
                  resp_audio =
                    \<lparr>resp_port = (if twoWay then audioServerPort else audioReturnPort'),
                     ssrc = audioSSRC',
                     resp_srtp_key = srtp_key (prep_audio request),
                     resp_srtp_salt = srtp_salt (prep_audio request)\<rparr>\<rparr>\<rparr>))))))"

section \<open>Predicates used in the statements\<close>

text \<open>Tearing down a session raises nothing: no process stop, no splitter close.\<close>

definition teardown_quiet :: "Env \<Rightarrow> OngoingSession \<Rightarrow> bool" where
  "teardown_quiet env session =
     (list_all (\<lambda>p. ffmpeg_stop env p = None) (ffmpeg session)
      \<and> (case ongoing_rtpSplitter session of
            None \<Rightarrow> True
          | Some r \<Rightarrow> splitter_close env r = None))"


text \<open>An awaited call completes: its promise is fulfilled.\<close>

definition completes :: "error + 'a \<Rightarrow> bool" where
  "completes r = (case r of Inl e \<Rightarrow> False | Inr v \<Rightarrow> True)"

text \<open>
  Every call that a negotiation awaits completes: the codec probe, the reservations that the
  probe's answer and the camera call for, and the query of the default interface.
\<close>

definition awaits_complete :: "Env \<Rightarrow> Delegate \<Rightarrow> bool" where
  "awaits_complete env this =
     (case codecEnabled env (videoProcessor this) ''libfdk_aac'' of
        Inl e \<Rightarrow> False
      | Inr b \<Rightarrow>
          completes (reservePorts env 0 None)
          \<and> (if b \<and> twoWayAudio this
             then completes (reservePorts env 1 None)
                  \<and> completes (reservePorts env 2 (Some 2))
                  \<and> completes (reservePorts env 3 None)
             else completes (reservePorts env 1 None))
          \<and> completes (networkInterfaceDefault env))"

text \<open>
  The non-internal addresses of the default interface (none when the interface is not among
  the host's interfaces, or the query for its name rejects).
\<close>

definition external_addresses :: "Env \<Rightarrow> NetworkInterfaceInfo list" where
  "external_addresses env =
     (case networkInterfaceDefault env of
        Inl e \<Rightarrow> []
      | Inr interfaceName \<Rightarrow>
          (case map_of (networkInterfaces env) interfaceName of
             None \<Rightarrow> []
           | Some infos \<Rightarrow> filter (\<lambda>info. \<not> internal info) infos))"

text \<open>
  What a negotiation has done once its audio reservations are made and the reservation for
  video has been called: \<open>b\<close> is the answer of the codec probe, \<open>p0\<close>, \<open>p1\<close>, \<open>p2\<close> the
  audio ports and \<open>evs2\<close>, \<open>evs3\<close> the two conditional reservations.
\<close>

definition negotiation_events ::
  "Delegate \<Rightarrow> PrepareStreamRequest \<Rightarrow> bool \<Rightarrow> int \<Rightarrow> event list \<Rightarrow> int \<Rightarrow> event list \<Rightarrow> int
     \<Rightarrow> event list"
where
  "negotiation_events this request b p0 evs2 p1 evs3 p2 =
     [CodecEnabled (videoProcessor this) ''libfdk_aac'', ReservePorts ''audioReturnPort'' None]
     @ evs2 @ evs3
     @ [GenerateSynchronisationSource ''audioSSRC'']
     @ (if b then []
        else [Log LInfo ''%s: Audio support disabled. A version of FFmpeg that is compiled with fdk_aac support is required to support audio.''
                [name this]])
     @ (if b \<and> twoWayAudio this
        then [NewRtpSplitter (RtpSplitter (prep_addressVersion request) p1 p0 p2)] else [])
     @ [ReservePorts ''videoReturnPort'' None]"

definition is_callback :: "event \<Rightarrow> bool" where
  "is_callback ev = (case ev of Callback \<Rightarrow> True | _ \<Rightarrow> False)"

definition is_reserve :: "event \<Rightarrow> bool" where
  "is_reserve ev = (case ev of ReservePorts v c \<Rightarrow> True | _ \<Rightarrow> False)"

definition is_spawn :: "event \<Rightarrow> bool" where
  "is_spawn ev = (case ev of Spawn p \<Rightarrow> True | _ \<Rightarrow> False)"

text \<open>What was written to the standard input of processes, in order.\<close>

fun stdin_written :: "event list \<Rightarrow> string list" where
  "stdin_written [] = []"
| "stdin_written (StdinWrite p s # evs) = s # stdin_written evs"
| "stdin_written (ev # evs) = stdin_written evs"

section \<open>Concrete inputs\<close>

definition no_sessions :: Registries where
  "no_sessions = \<lparr>ongoingSessions = [], pendingSessions = []\<rparr>"

definition g3_camera :: CameraConfig where
  "g3_camera = \<lparr>host = ''192.168.1.20'',
                talkbackSettings = \<lparr>typeFmt = ''aac'', samplingRate = 22050, channels = 1,
                                    bindPort = 7004\<rparr>\<rparr>"

text \<open>A camera without two-way audio, and a doorbell with it.\<close>

definition garage :: Delegate where
  "garage = \<lparr>name = ''Garage'', videoProcessor = ''ffmpeg'',
             cameraUrl = ''rtsp://192.168.1.1:7447/abcdef'', twoWayAudio = False,
             camera = g3_camera, ffmpegOptions = None, debugMode = False\<rparr>"

definition doorbell :: Delegate where
  "doorbell = garage\<lparr>name := ''Doorbell'', twoWayAudio := True\<rparr>"

text \<open>
  A host with FFmpeg built with libfdk\_aac, one IPv4 address on its default interface,
  and collaborators that raise nothing.
\<close>

definition home_env :: Env where
  "home_env =
     \<lparr>codecEnabled = (\<lambda>binary codec. Inr True),
      reservePorts = (\<lambda>n c. Inr (50000 + 2 * int n)),
      generateSynchronisationSource = (\<lambda>n. 1000 + int n),
      networkInterfaceDefault = Inr ''eth0'',
      networkInterfaces =
        [(''lo'', [\<lparr>info_address = ''127.0.0.1'', family = ''IPv4'', internal = True\<rparr>]),
         (''eth0'', [\<lparr>info_address = ''192.168.1.5'', family = ''IPv4'', internal = False\<rparr>])],
      ffmpeg_launch = (\<lambda>p. None),
      ffmpeg_getStdin = (\<lambda>p. True),
      ffmpeg_stop = (\<lambda>p. None),
      splitter_close = (\<lambda>r. None)\<rparr>"

text \<open>The same host when every \<^verbatim>\<open>stop()\<close> of a process raises.\<close>

definition stubborn_env :: Env where
  "stubborn_env = home_env\<lparr>ffmpeg_stop := (\<lambda>p. Some (Thrown ''kill ESRCH''))\<rparr>"

text \<open>The same host when the default interface has only an internal address.\<close>

definition offline_env :: Env where
  "offline_env = home_env\<lparr>networkInterfaceDefault := Inr ''lo''\<rparr>"

text \<open>The same host when the random generator returns the same identifier twice.\<close>

definition repeating_env :: Env where
  "repeating_env = home_env\<lparr>generateSynchronisationSource := (\<lambda>n. 4242)\<rparr>"

text \<open>The same host with an FFmpeg that lacks libfdk\_aac.\<close>

definition plain_ffmpeg_env :: Env where
  "plain_ffmpeg_env = home_env\<lparr>codecEnabled := (\<lambda>binary codec. Inr False)\<rparr>"

text \<open>The same host when no port is free: every reservation rejects.\<close>

definition exhausted_env :: Env where
  "exhausted_env = home_env\<lparr>reservePorts := (\<lambda>n c. Inl (Thrown ''no port available''))\<rparr>"

definition srtp_key16 :: Buffer where
  "srtp_key16 = [0, 1, 2, 3, 4, 5, 6, 7, 8, 9, 10, 11, 12, 13, 14, 15]"

definition srtp_salt14 :: Buffer where
  "srtp_salt14 = [16, 17, 18, 19, 20, 21, 22, 23, 24, 25, 26, 27, 28, 29]"

definition prepare_a :: PrepareStreamRequest where
  "prepare_a =
     \<lparr>prep_sessionID = ''a'', targetAddress = ''192.168.1.77'', prep_addressVersion = ''ipv4'',
      prep_video = \<lparr>port = 51000, srtpCryptoSuite = AES_CM_128_HMAC_SHA1_80,
                    srtp_key = srtp_key16, srtp_salt = srtp_salt14\<rparr>,
      prep_audio = \<lparr>port = 51002, srtpCryptoSuite = AES_CM_128_HMAC_SHA1_80,
                    srtp_key = srtp_key16, srtp_salt = srtp_salt14\<rparr>\<rparr>"

definition prepare_a6 :: PrepareStreamRequest where
  "prepare_a6 = prepare_a\<lparr>targetAddress := ''fe80::77'', prep_addressVersion := ''ipv6''\<rparr>"

definition start_a :: StartStreamRequest where
  "start_a =
     \<lparr>sessionID = ''a'',
      video = \<lparr>width = 1280, height = 720, fps = 30, video_max_bit_rate = 299, video_pt = 99\<rparr>,
      audio = \<lparr>sample_rate = 16, audio_max_bit_rate = 24, audio_pt = 110\<rparr>\<rparr>"

text \<open>The session that \<open>prepare_a\<close> stores on \<open>home_env\<close> for the garage camera.\<close>

definition session_a :: SessionInfo where
  "session_a =
     \<lparr>address = ''192.168.1.77'', addressVersion = ''ipv4'',
      videoPort = 51000, videoReturnPort = 50002,
      videoCryptoSuite = AES_CM_128_HMAC_SHA1_80,
      videoSRTP = srtp_key16 @ srtp_salt14, videoSSRC = 1001,
      hasLibFdk = True,
      audioPort = 51002, audioReturnPort = 50000, audioTwoWayPort = - 1,
      rtpSplitter = None,
      audioCryptoSuite = AES_CM_128_HMAC_SHA1_80,
      audioSRTP = srtp_key16 @ srtp_salt14, audioSSRC = 1000\<rparr>"

definition process_1 :: FfmpegProcess where
  "process_1 = FfmpegProcess ''a'' ''-i rtsp://192.168.1.1:7447/abcdef'' None True"

definition process_2 :: FfmpegProcess where
  "process_2 = FfmpegProcess ''a'' ''-i pipe:0'' None False"

definition splitter_a :: RtpSplitter where
  "splitter_a = RtpSplitter ''ipv4'' 50002 50000 50004"

text \<open>Session \<open>a\<close> is streaming with two processes and a splitter; \<open>b\<close> was only negotiated.\<close>

definition streaming_a_pending_b :: Registries where
  "streaming_a_pending_b =
     \<lparr>ongoingSessions = [(''a'', \<lparr>ffmpeg = [process_1, process_2],
                                 ongoing_rtpSplitter = Some splitter_a\<rparr>)],
      pendingSessions = [(''b'', session_a)]\<rparr>"

text \<open>Session \<open>a\<close> has been negotiated and not started, with and without AAC.\<close>

definition negotiated_a :: Registries where
  "negotiated_a = \<lparr>ongoingSessions = [], pendingSessions = [(''a'', session_a)]\<rparr>"

definition negotiated_a_video_only :: Registries where
  "negotiated_a_video_only =
     \<lparr>ongoingSessions = [], pendingSessions = [(''a'', session_a\<lparr>hasLibFdk := False\<rparr>)]\<rparr>"

definition pending_b_only :: Registries where
  "pending_b_only = \<lparr>ongoingSessions = [], pendingSessions = [(''b'', session_a)]\<rparr>"

section \<open>Facts about the registries\<close>

lemmas example_defs = no_sessions_def g3_camera_def garage_def doorbell_def home_env_def
  stubborn_env_def offline_env_def repeating_env_def plain_ffmpeg_env_def exhausted_env_def
  prepare_a_def
  prepare_a6_def start_a_def session_a_def process_1_def process_2_def splitter_a_def
  streaming_a_pending_b_def pending_b_only_def negotiated_a_def negotiated_a_video_only_def




lemma stopStream_try_absent:
  "map_of (ongoingSessions st) k = None \<Longrightarrow>
   stopStream_try env this k st =
     \<lparr>after = st\<lparr>pendingSessions := AList.delete k (pendingSessions st),
                  ongoingSessions := AList.delete k (ongoingSessions st)\<rparr>,
      events = [Log LInfo ''%s: Stopped video stream.'' [name this]],
      returned = Inr ()\<rparr>"
  by (simp add: stopStream_try_def close_splitter_def)






section \<open>Stopping a session\<close>



section \<open>Shutdown\<close>

lemma stop_each_quiet:
  "list_all (\<lambda>p. ffmpeg_stop env p = None) ps \<Longrightarrow> stop_each env ps = (map Stop ps, None)"
  by (induction ps) simp_all

lemma stopStream_quiet_present:
  assumes "map_of (ongoingSessions st) k = Some session" and "teardown_quiet env session"
  shows "stopStream env this k st =
     \<lparr>after = st\<lparr>pendingSessions := AList.delete k (pendingSessions st),
                  ongoingSessions := AList.delete k (ongoingSessions st)\<rparr>,
      events = map Stop (ffmpeg session)
        @ (case ongoing_rtpSplitter session of None \<Rightarrow> [] | Some r \<Rightarrow> [Close r])
        @ [Log LInfo ''%s: Stopped video stream.'' [name this]],
      returned = Inr ()\<rparr>"
proof (cases "ongoing_rtpSplitter session")
  case None
  with assms show ?thesis
    by (simp add: stopStream_def stopStream_try_def teardown_quiet_def stop_each_quiet
        close_splitter_def)
next
  case (Some r)
  with assms show ?thesis
    by (simp add: stopStream_def stopStream_try_def teardown_quiet_def stop_each_quiet
        close_splitter_def)
qed

lemma stopStream_quiet_absent:
  assumes "map_of (ongoingSessions st) k = None"
  shows "stopStream env this k st =
     \<lparr>after = st\<lparr>pendingSessions := AList.delete k (pendingSessions st),
                  ongoingSessions := AList.delete k (ongoingSessions st)\<rparr>,
      events = [Log LInfo ''%s: Stopped video stream.'' [name this]],
      returned = Inr ()\<rparr>"
  using assms by (simp add: stopStream_def stopStream_try_absent)

lemma stopStream_quiet_after:
  assumes "list_all (teardown_quiet env) (map snd (ongoingSessions st))"
  shows "after (stopStream env this k st) =
           st\<lparr>pendingSessions := AList.delete k (pendingSessions st),
              ongoingSessions := AList.delete k (ongoingSessions st)\<rparr>"
proof (cases "map_of (ongoingSessions st) k")
  case None
  then show ?thesis by (simp add: stopStream_quiet_absent)
next
  case (Some session)
  then have "(k, session) \<in> set (ongoingSessions st)" by (rule map_of_SomeD)
  with assms have "teardown_quiet env session"
    by (force simp: list_all_iff)
  with Some show ?thesis by (simp add: stopStream_quiet_present)
qed

lemma list_all_delete:
  "list_all P (map snd al) \<Longrightarrow> list_all P (map snd (AList.delete k al))"
  by (auto simp: list_all_iff AList.delete_eq)

lemma delete_filter_keys:
  "filter (\<lambda>e. fst e \<notin> set ks) (AList.delete k al)
     = filter (\<lambda>e. fst e \<noteq> k \<and> fst e \<notin> set ks) al"
  by (induction al) (auto simp: AList.delete_eq)

lemma stop_sessions_quiet_state:
  "list_all (teardown_quiet env) (map snd (ongoingSessions st)) \<Longrightarrow>
   fst (stop_sessions env this ks st) =
     st\<lparr>pendingSessions := filter (\<lambda>e. fst e \<notin> set ks) (pendingSessions st),
        ongoingSessions := filter (\<lambda>e. fst e \<notin> set ks) (ongoingSessions st)\<rparr>"
proof (induction ks arbitrary: st)
  case Nil
  then show ?case by simp
next
  case (Cons k ks)
  let ?st' = "st\<lparr>pendingSessions := AList.delete k (pendingSessions st),
                 ongoingSessions := AList.delete k (ongoingSessions st)\<rparr>"
  have a: "after (stopStream env this k st) = ?st'"
    using Cons.prems by (rule stopStream_quiet_after)
  have q: "list_all (teardown_quiet env) (map snd (ongoingSessions ?st'))"
    using Cons.prems by (simp add: list_all_delete)
  have "fst (stop_sessions env this (k # ks) st) = fst (stop_sessions env this ks ?st')"
    by (simp add: Let_def a split: prod.splits)
  also have "\<dots> = ?st'\<lparr>pendingSessions := filter (\<lambda>e. fst e \<notin> set ks) (pendingSessions ?st'),
        ongoingSessions := filter (\<lambda>e. fst e \<notin> set ks) (ongoingSessions ?st')\<rparr>"
    using q by (rule Cons.IH)
  also have "\<dots> = st\<lparr>pendingSessions := filter (\<lambda>e. fst e \<notin> set (k # ks)) (pendingSessions st),
        ongoingSessions := filter (\<lambda>e. fst e \<notin> set (k # ks)) (ongoingSessions st)\<rparr>"
    by (simp add: delete_filter_keys)
  finally show ?case .
qed

lemma stop_sessions_quiet_events:
  "list_all (teardown_quiet env) (map snd (ongoingSessions st)) \<Longrightarrow>
   k \<in> set ks \<Longrightarrow> map_of (ongoingSessions st) k = Some session \<Longrightarrow>
   set (map Stop (ffmpeg session)
        @ (case ongoing_rtpSplitter session of None \<Rightarrow> [] | Some r \<Rightarrow> [Close r]))
     \<subseteq> set (snd (stop_sessions env this ks st))"
proof (induction ks arbitrary: st)
  case Nil
  then show ?case by simp
next
  case (Cons k' ks)
  let ?st' = "st\<lparr>pendingSessions := AList.delete k' (pendingSessions st),
                 ongoingSessions := AList.delete k' (ongoingSessions st)\<rparr>"
  have a: "after (stopStream env this k' st) = ?st'"
    using Cons.prems(1) by (rule stopStream_quiet_after)
  have ev: "snd (stop_sessions env this (k' # ks) st)
      = events (stopStream env this k' st) @ snd (stop_sessions env this ks ?st')"
    by (simp add: Let_def a split: prod.splits)
  show ?case
  proof (cases "k = k'")
    case True
    have "teardown_quiet env session"
      using Cons.prems(1) map_of_SomeD[OF Cons.prems(3)] by (force simp: list_all_iff)
    then have "events (stopStream env this k' st) = map Stop (ffmpeg session)
        @ (case ongoing_rtpSplitter session of None \<Rightarrow> [] | Some r \<Rightarrow> [Close r])
        @ [Log LInfo ''%s: Stopped video stream.'' [name this]]"
      using Cons.prems(3) True by (simp add: stopStream_quiet_present)
    then show ?thesis unfolding ev by auto
  next
    case False
    then have "k \<in> set ks" using Cons.prems(2) by simp
    moreover have "map_of (ongoingSessions ?st') k = Some session"
      using False Cons.prems(3) by simp
    moreover have "list_all (teardown_quiet env) (map snd (ongoingSessions ?st'))"
      using Cons.prems(1) by (simp add: list_all_delete)
    ultimately have "set (map Stop (ffmpeg session)
        @ (case ongoing_rtpSplitter session of None \<Rightarrow> [] | Some r \<Rightarrow> [Close r]))
     \<subseteq> set (snd (stop_sessions env this ks ?st'))"
      using Cons.IH by blast
    then show ?thesis unfolding ev by auto
  qed
qed

text \<open>
  Claim C5, as the code has it. The shutdown handler stops the ids of \<^verbatim>\<open>ongoingSessions\<close>
  only. When no process stop and no splitter close raises, the ongoing registry is empty
  afterwards, every process of every session that was ongoing has had \<^verbatim>\<open>stop()\<close>
  called and every splitter \<^verbatim>\<open>close()\<close>; of the pending registry exactly the entries
  whose id was not ongoing are still there.
\<close>

theorem shutdown_drains_ongoing:
  assumes "distinct (map fst (ongoingSessions st))"
    and "list_all (teardown_quiet env) (map snd (ongoingSessions st))"
  shows "ongoingSessions (fst (shutdown env this st)) = []
       \<and> pendingSessions (fst (shutdown env this st))
           = filter (\<lambda>e. fst e \<notin> set (Object_keys (ongoingSessions st))) (pendingSessions st)
       \<and> (\<forall>(k, session) \<in> set (ongoingSessions st).
            (\<forall>p \<in> set (ffmpeg session). Stop p \<in> set (snd (shutdown env this st)))
            \<and> (\<forall>r. ongoing_rtpSplitter session = Some r
                   \<longrightarrow> Close r \<in> set (snd (shutdown env this st))))"
proof (intro conjI)
  have s: "fst (shutdown env this st) =
     st\<lparr>pendingSessions := filter (\<lambda>e. fst e \<notin> set (Object_keys (ongoingSessions st))) (pendingSessions st),
        ongoingSessions := filter (\<lambda>e. fst e \<notin> set (Object_keys (ongoingSessions st))) (ongoingSessions st)\<rparr>"
    unfolding shutdown_def using assms(2) by (rule stop_sessions_quiet_state)
  show "ongoingSessions (fst (shutdown env this st)) = []"
    by (simp add: s Object_keys_def filter_empty_conv)
  show "pendingSessions (fst (shutdown env this st))
           = filter (\<lambda>e. fst e \<notin> set (Object_keys (ongoingSessions st))) (pendingSessions st)"
    by (simp add: s)
  show "\<forall>(k, session) \<in> set (ongoingSessions st).
            (\<forall>p \<in> set (ffmpeg session). Stop p \<in> set (snd (shutdown env this st)))
            \<and> (\<forall>r. ongoing_rtpSplitter session = Some r
                   \<longrightarrow> Close r \<in> set (snd (shutdown env this st)))"
  proof (clarify, intro conjI ballI allI impI)
    fix k session
    assume m: "(k, session) \<in> set (ongoingSessions st)"
    then have ks: "k \<in> set (Object_keys (ongoingSessions st))"
      by (force simp: Object_keys_def)
    have look: "map_of (ongoingSessions st) k = Some session"
      using assms(1) m by simp
    have sub: "set (map Stop (ffmpeg session)
        @ (case ongoing_rtpSplitter session of None \<Rightarrow> [] | Some r \<Rightarrow> [Close r]))
     \<subseteq> set (snd (shutdown env this st))"
      unfolding shutdown_def using assms(2) ks look by (rule stop_sessions_quiet_events)
    { fix p assume "p \<in> set (ffmpeg session)"
      then show "Stop p \<in> set (snd (shutdown env this st))" using sub by auto }
    { fix r assume "ongoing_rtpSplitter session = Some r"
      then show "Close r \<in> set (snd (shutdown env this st))" using sub by auto }
  qed
qed

theorem shutdown_drains_ongoing_witness:
  "distinct (map fst (ongoingSessions streaming_a_pending_b))
   \<and> list_all (teardown_quiet home_env) (map snd (ongoingSessions streaming_a_pending_b))
   \<and> ongoingSessions (fst (shutdown home_env garage streaming_a_pending_b)) = []
   \<and> pendingSessions (fst (shutdown home_env garage streaming_a_pending_b)) = [(''b'', session_a)]
   \<and> Stop process_1 \<in> set (snd (shutdown home_env garage streaming_a_pending_b))
   \<and> Stop process_2 \<in> set (snd (shutdown home_env garage streaming_a_pending_b))
   \<and> Close splitter_a \<in> set (snd (shutdown home_env garage streaming_a_pending_b))"
proof -
  have d: "distinct (map fst (ongoingSessions streaming_a_pending_b))"
    by (simp add: streaming_a_pending_b_def)
  have q: "list_all (teardown_quiet home_env) (map snd (ongoingSessions streaming_a_pending_b))"
    by (simp add: streaming_a_pending_b_def teardown_quiet_def home_env_def)
  have m: "(''a'', \<lparr>ffmpeg = [process_1, process_2], ongoing_rtpSplitter = Some splitter_a\<rparr>)
             \<in> set (ongoingSessions streaming_a_pending_b)"
    by (simp add: streaming_a_pending_b_def)
  have f: "filter (\<lambda>e. fst e \<notin> set (Object_keys (ongoingSessions streaming_a_pending_b)))
             (pendingSessions streaming_a_pending_b) = [(''b'', session_a)]"
    by (simp add: streaming_a_pending_b_def Object_keys_def)
  note t = shutdown_drains_ongoing [OF d q, of garage]
  from t f have c1: "ongoingSessions (fst (shutdown home_env garage streaming_a_pending_b)) = []"
    and c2: "pendingSessions (fst (shutdown home_env garage streaming_a_pending_b))
               = [(''b'', session_a)]"
    by simp_all
  from t m have c3: "Stop process_1 \<in> set (snd (shutdown home_env garage streaming_a_pending_b))"
    and c4: "Stop process_2 \<in> set (snd (shutdown home_env garage streaming_a_pending_b))"
    and c5: "Close splitter_a \<in> set (snd (shutdown home_env garage streaming_a_pending_b))"
    by fastforce+
  from d q c1 c2 c3 c4 c5 show ?thesis by blast
qed

text \<open>
  The claim as it was stated fails on a session that was negotiated and never started: the
  handler does not visit it, and it is still pending after shutdown.
\<close>

theorem shutdown_keeps_pending_counterexample:
  "pendingSessions (fst (shutdown home_env garage pending_b_only)) = [(''b'', session_a)]
   \<and> pendingSessions (fst (shutdown home_env garage pending_b_only)) \<noteq> []"
  by (simp add: shutdown_def Object_keys_def pending_b_only_def)

text \<open>
  When a process stop raises, the \<^verbatim>\<open>catch\<close> of \<^verbatim>\<open>stopStream\<close> ends the teardown of
  that session: the entry stays and the processes after the failing one are not reached.
\<close>

lemma shutdown_when_stop_raises:
  "ongoingSessions (fst (shutdown stubborn_env garage streaming_a_pending_b))
     = ongoingSessions streaming_a_pending_b
   \<and> Stop process_2 \<notin> set (snd (shutdown stubborn_env garage streaming_a_pending_b))"
  by (simp add: shutdown_def Object_keys_def stopStream_def stopStream_try_def Let_def
      example_defs)

section \<open>Starting a session\<close>

text \<open>
  A start for an id that has no pending session: the promise of \<^verbatim>\<open>startStream\<close> is
  rejected by the TypeError of the first property read on the missing session. Nothing has
  happened by then except the log line of the request: no process was launched, no port was
  reserved, and both registries are as they were.
\<close>

lemma startStream_without_pending:
  assumes "map_of (pendingSessions st) (sessionID request) = None"
  shows "returned (startStream env this request st) = Inl (TypeError_undefined ''videoSSRC'')
       \<and> after (startStream env this request st) = st
       \<and> filter is_spawn (events (startStream env this request st)) = []
       \<and> filter is_reserve (events (startStream env this request st)) = []"
  using assms by (simp add: startStream_def Let_def is_spawn_def is_reserve_def)

text \<open>
  The caller of \<^verbatim>\<open>handleStreamRequest\<close> sees none of it: the rejected promise is
  dropped, the function returns normally and the callback is never called.
\<close>

lemma handleStreamRequest_start_without_pending:
  assumes "map_of (pendingSessions st) (sessionID request) = None"
  shows "handleStreamRequest env this (StartRequest request) st =
     \<lparr>after = st,
      events =
        [Log LInfo ''%s: HomeKit video stream request received: %sx%s, %s fps, %s kbps.''
           [name this, string_of_number (width (video request)),
            string_of_number (height (video request)), string_of_number (fps (video request)),
            string_of_number (video_max_bit_rate (video request))],
         UnhandledRejection (TypeError_undefined ''videoSSRC'')],
      returned = Inr ()\<rparr>"
  using assms by (simp add: handleStreamRequest_def startStream_def Let_def)

text \<open>
  Claim C2, at a start request for session \<open>a\<close> when only session \<open>b\<close> has been negotiated.
  The request has no side effect (the registries are unchanged, nothing is launched or
  reserved), but it does not fail with an error either: \<^verbatim>\<open>handleStreamRequest\<close> returns
  normally, the TypeError stays in a promise that nobody handles, and the callback, the only
  way to report a failure to HomeKit, is not called.
\<close>

theorem start_without_pending_unreported:
  "handleStreamRequest home_env garage (StartRequest start_a) pending_b_only =
     \<lparr>after = pending_b_only,
      events =
        [Log LInfo ''%s: HomeKit video stream request received: %sx%s, %s fps, %s kbps.''
           [''Garage'', ''1280'', ''720'', ''30'', ''299''],
         UnhandledRejection (TypeError_undefined ''videoSSRC'')],
      returned = Inr ()\<rparr>"
  by (simp add: handleStreamRequest_def startStream_def Let_def string_of_number_def
      digits.simps pending_b_only_def start_a_def garage_def)

theorem start_without_pending_unreported_witness:
  "returned (handleStreamRequest home_env garage (StartRequest start_a) pending_b_only) = Inr ()
   \<and> filter is_callback
       (events (handleStreamRequest home_env garage (StartRequest start_a) pending_b_only)) = []
   \<and> filter is_spawn
       (events (handleStreamRequest home_env garage (StartRequest start_a) pending_b_only)) = []
   \<and> after (handleStreamRequest home_env garage (StartRequest start_a) pending_b_only)
       = pending_b_only"
  using start_without_pending_unreported by (simp add: is_callback_def is_spawn_def)

text \<open>
  The other two kinds of request do call the callback, also a stop for an unknown session.
\<close>

lemma handleStreamRequest_stop_calls_back:
  "last (events (handleStreamRequest env this (StopRequest sessionId) st)) = Callback
   \<and> returned (handleStreamRequest env this (StopRequest sessionId) st) = Inr ()"
  by (simp add: handleStreamRequest_def Let_def)

lemma startTwoWay_pending:
  "pendingSessions (after (startTwoWay env this request sessionInfo st evs)) = pendingSessions st"
  by (auto simp: startTwoWay_def Let_def push_ffmpeg_def split: option.splits sum.splits)

lemma startTwoWay_ongoing_keys:
  "map_of (ongoingSessions st) (sessionID request) \<noteq> None \<Longrightarrow>
   map fst (ongoingSessions (after (startTwoWay env this request sessionInfo st evs)))
     = map fst (ongoingSessions st)"
  by (auto simp: startTwoWay_def Let_def push_ffmpeg_def AList.update_keys map_of_eq_None_iff
      split: option.splits sum.splits)

lemma startTwoWay_lookup:
  "map_of (ongoingSessions st) (sessionID request) \<noteq> None \<Longrightarrow>
   map_of (ongoingSessions (after (startTwoWay env this request sessionInfo st evs))) (sessionID request) \<noteq> None"
  by (auto simp: startTwoWay_def Let_def push_ffmpeg_def AList.update_conv'
      split: option.splits sum.splits)

lemma startTwoWay_events:
  "\<exists>more. events (startTwoWay env this request sessionInfo st evs) = evs @ more"
  by (auto simp: startTwoWay_def Let_def split: option.splits sum.splits)


lemma startStream_launched:
  assumes p: "map_of (pendingSessions st) (sessionID request) = Some sessionInfo"
    and l: "ffmpeg_launch env
              (FfmpegProcess (sessionID request) (fcmd this request sessionInfo)
                 (if hasLibFdk sessionInfo \<and> twoWayAudio this then None
                  else Some (addressVersion sessionInfo, videoReturnPort sessionInfo))
                 True) = None"
  shows "pendingSessions (after (startStream env this request st))
           = AList.delete (sessionID request) (pendingSessions st)"
    and "map fst (ongoingSessions (after (startStream env this request st)))
           = (if sessionID request \<in> set (map fst (ongoingSessions st))
              then map fst (ongoingSessions st)
              else map fst (ongoingSessions st) @ [sessionID request])"
    and "map_of (ongoingSessions (after (startStream env this request st))) (sessionID request)
           \<noteq> None"
    and "filter is_spawn (events (startStream env this request st)) \<noteq> []"
    and "\<exists>more. events (startStream env this request st)
           = [Log LInfo ''%s: HomeKit video stream request received: %sx%s, %s fps, %s kbps.''
                [name this, string_of_number (width (video request)),
                 string_of_number (height (video request)), string_of_number (fps (video request)),
                 string_of_number (video_max_bit_rate (video request))],
              Spawn (FfmpegProcess (sessionID request) (fcmd this request sessionInfo)
                 (if hasLibFdk sessionInfo \<and> twoWayAudio this then None
                  else Some (addressVersion sessionInfo, videoReturnPort sessionInfo))
                 True)] @ more"
proof -
  let ?p1 = "FfmpegProcess (sessionID request) (fcmd this request sessionInfo)
                 (if hasLibFdk sessionInfo \<and> twoWayAudio this then None
                  else Some (addressVersion sessionInfo, videoReturnPort sessionInfo))
                 True"
  let ?st2 = "st\<lparr>ongoingSessions :=
                   AList.update (sessionID request)
                     \<lparr>ffmpeg = [?p1], ongoing_rtpSplitter = rtpSplitter sessionInfo\<rparr>
                     (ongoingSessions st),
                 pendingSessions := AList.delete (sessionID request) (pendingSessions st)\<rparr>"
  let ?evs = "[Log LInfo ''%s: HomeKit video stream request received: %sx%s, %s fps, %s kbps.''
            [name this, string_of_number (width (video request)),
             string_of_number (height (video request)), string_of_number (fps (video request)),
             string_of_number (video_max_bit_rate (video request))], Spawn ?p1]"
  have r: "startStream env this request st =
     (if \<not> hasLibFdk sessionInfo \<or> \<not> twoWayAudio this
      then \<lparr>after = ?st2, events = ?evs, returned = Inr ()\<rparr>
      else startTwoWay env this request sessionInfo ?st2 ?evs)"
    using p l by (simp add: startStream_def Let_def)
  have look: "map_of (ongoingSessions ?st2) (sessionID request) \<noteq> None"
    by (simp add: AList.update_conv')
  have keys: "map fst (ongoingSessions ?st2)
           = (if sessionID request \<in> set (map fst (ongoingSessions st))
              then map fst (ongoingSessions st)
              else map fst (ongoingSessions st) @ [sessionID request])"
    by (simp add: AList.update_keys)
  show "pendingSessions (after (startStream env this request st))
           = AList.delete (sessionID request) (pendingSessions st)"
    by (simp add: r startTwoWay_pending)
  show "filter is_spawn (events (startStream env this request st)) \<noteq> []"
    using startTwoWay_events[of env this request sessionInfo ?st2 ?evs]
    by (auto simp: r is_spawn_def)
  show "\<exists>more. events (startStream env this request st) = ?evs @ more"
    using startTwoWay_events[of env this request sessionInfo ?st2 ?evs]
    by (auto simp: r)
  show "map fst (ongoingSessions (after (startStream env this request st)))
           = (if sessionID request \<in> set (map fst (ongoingSessions st))
              then map fst (ongoingSessions st)
              else map fst (ongoingSessions st) @ [sessionID request])"
  proof (cases "\<not> hasLibFdk sessionInfo \<or> \<not> twoWayAudio this")
    case True
    then have "after (startStream env this request st) = ?st2" by (simp only: r if_True Run.simps)
    then show ?thesis by (simp only: keys)
  next
    case False
    then have "startStream env this request st
                 = startTwoWay env this request sessionInfo ?st2 ?evs"
      by (simp only: r if_False)
    then show ?thesis
      by (simp only: startTwoWay_ongoing_keys[OF look] keys)
  qed
  show "map_of (ongoingSessions (after (startStream env this request st))) (sessionID request)
           \<noteq> None"
  proof (cases "\<not> hasLibFdk sessionInfo \<or> \<not> twoWayAudio this")
    case True
    then have "after (startStream env this request st) = ?st2" by (simp only: r if_True Run.simps)
    then show ?thesis using look by metis
  next
    case False
    then have "startStream env this request st
                 = startTwoWay env this request sessionInfo ?st2 ?evs"
      by (simp only: r if_False)
    then show ?thesis
      using startTwoWay_lookup[OF look] by metis
  qed
qed






section \<open>The transcode command\<close>

lemma videomtu_text: "string_of_number videomtu = ''564''"
  by (simp add: videomtu_def string_of_number_def digits.simps)

lemma audiomtu_text: "string_of_number audiomtu = ''188''"
  by (simp add: audiomtu_def string_of_number_def digits.simps)

lemma fcmd_a:
  "fcmd garage start_a session_a =
     ''-hide_banner -rtsp_transport tcp -i rtsp://192.168.1.1:7447/abcdef -map 0:v -vcodec copy -f rawvideo -pix_fmt yuvj420p -r 30  -b:v 299k -bufsize 598k -maxrate 299k -payload_type 99 -ssrc 1001 -f rtp -srtp_out_suite AES_CM_128_HMAC_SHA1_80 -srtp_out_params AAECAwQFBgcICQoLDA0ODxAREhMUFRYXGBkaGxwd srtp://192.168.1.77:51000?rtcpport=51000&localrtcpport=51000&pkt_size=564 -map 0:a -acodec libfdk_aac -profile:a aac_eld -flags +global_header -f null -ar 16k -b:a 24k -bufsize 48k -ac 1 -payload_type 110 -ssrc 1000 -f rtp -srtp_out_suite AES_CM_128_HMAC_SHA1_80 -srtp_out_params AAECAwQFBgcICQoLDA0ODxAREhMUFRYXGBkaGxwd srtp://192.168.1.77:51002?rtcpport=51002&localrtcpport=51002&pkt_size=188''"
  by (simp add: fcmd_def ffmpegVideoArgs_def ffmpegVideoStream_def ffmpegAudioArgs_def
      ffmpegAudioStream_def loglevel_def beVerbose_def or_empty_def videomtu_def audiomtu_def
      string_of_number_def digits.simps b64_def srtp_key16_def srtp_salt14_def
      garage_def start_a_def session_a_def)

text \<open>
  Claim C4. The RTP leg of the video ends in \<^verbatim>\<open>&pkt_size=564\<close> and the RTP leg of the
  audio in \<^verbatim>\<open>&pkt_size=188\<close>, whatever the session and the request are: the legs are
  built from the negotiated session only, and the two sizes are the constants
  \<^verbatim>\<open>188 * 3\<close> and \<^verbatim>\<open>188 * 1\<close> printed in decimal. The command is the input, the video
  arguments, the video leg, then (with AAC) the audio arguments and the audio leg, then the
  log level; it is the command of the first process that a start launches.
\<close>

theorem packet_sizes_verbatim:
  "ffmpegVideoStream sessionInfo =
     '' -ssrc '' @ string_of_number (videoSSRC sessionInfo)
     @ '' -f rtp -srtp_out_suite AES_CM_128_HMAC_SHA1_80 -srtp_out_params ''
     @ base64 (videoSRTP sessionInfo)
     @ '' srtp://'' @ address sessionInfo @ '':'' @ string_of_number (videoPort sessionInfo)
     @ ''?rtcpport='' @ string_of_number (videoPort sessionInfo)
     @ ''&localrtcpport='' @ string_of_number (videoPort sessionInfo)
     @ ''&pkt_size=564''
   \<and> ffmpegAudioStream sessionInfo =
     '' -ssrc '' @ string_of_number (audioSSRC sessionInfo)
     @ '' -f rtp -srtp_out_suite AES_CM_128_HMAC_SHA1_80 -srtp_out_params ''
     @ base64 (audioSRTP sessionInfo)
     @ '' srtp://'' @ address sessionInfo @ '':'' @ string_of_number (audioPort sessionInfo)
     @ ''?rtcpport='' @ string_of_number (audioPort sessionInfo)
     @ ''&localrtcpport='' @ string_of_number (audioPort sessionInfo)
     @ ''&pkt_size=188''
   \<and> fcmd this request sessionInfo =
     ''-hide_banner -rtsp_transport tcp -i '' @ cameraUrl this
     @ ffmpegVideoArgs this request @ ffmpegVideoStream sessionInfo
     @ (if hasLibFdk sessionInfo then ffmpegAudioArgs request @ ffmpegAudioStream sessionInfo
        else [])
     @ loglevel this
   \<and> (map_of (pendingSessions st) (sessionID request) = Some sessionInfo
       \<and> ffmpeg_launch env
            (FfmpegProcess (sessionID request) (fcmd this request sessionInfo)
               (if hasLibFdk sessionInfo \<and> twoWayAudio this then None
                else Some (addressVersion sessionInfo, videoReturnPort sessionInfo))
               True) = None
       \<longrightarrow> hd (filter is_spawn (events (startStream env this request st)))
           = Spawn (FfmpegProcess (sessionID request) (fcmd this request sessionInfo)
               (if hasLibFdk sessionInfo \<and> twoWayAudio this then None
                else Some (addressVersion sessionInfo, videoReturnPort sessionInfo))
               True))"
proof (intro conjI impI)
  show "ffmpegVideoStream sessionInfo =
     '' -ssrc '' @ string_of_number (videoSSRC sessionInfo)
     @ '' -f rtp -srtp_out_suite AES_CM_128_HMAC_SHA1_80 -srtp_out_params ''
     @ base64 (videoSRTP sessionInfo)
     @ '' srtp://'' @ address sessionInfo @ '':'' @ string_of_number (videoPort sessionInfo)
     @ ''?rtcpport='' @ string_of_number (videoPort sessionInfo)
     @ ''&localrtcpport='' @ string_of_number (videoPort sessionInfo)
     @ ''&pkt_size=564''"
    by (simp add: ffmpegVideoStream_def videomtu_text)
  show "ffmpegAudioStream sessionInfo =
     '' -ssrc '' @ string_of_number (audioSSRC sessionInfo)
     @ '' -f rtp -srtp_out_suite AES_CM_128_HMAC_SHA1_80 -srtp_out_params ''
     @ base64 (audioSRTP sessionInfo)
     @ '' srtp://'' @ address sessionInfo @ '':'' @ string_of_number (audioPort sessionInfo)
     @ ''?rtcpport='' @ string_of_number (audioPort sessionInfo)
     @ ''&localrtcpport='' @ string_of_number (audioPort sessionInfo)
     @ ''&pkt_size=188''"
    by (simp add: ffmpegAudioStream_def audiomtu_text)
  show "fcmd this request sessionInfo =
     ''-hide_banner -rtsp_transport tcp -i '' @ cameraUrl this
     @ ffmpegVideoArgs this request @ ffmpegVideoStream sessionInfo
     @ (if hasLibFdk sessionInfo then ffmpegAudioArgs request @ ffmpegAudioStream sessionInfo
        else [])
     @ loglevel this"
    by (simp add: fcmd_def)
next
  assume h: "map_of (pendingSessions st) (sessionID request) = Some sessionInfo
       \<and> ffmpeg_launch env
            (FfmpegProcess (sessionID request) (fcmd this request sessionInfo)
               (if hasLibFdk sessionInfo \<and> twoWayAudio this then None
                else Some (addressVersion sessionInfo, videoReturnPort sessionInfo))
               True) = None"
  from startStream_launched(5)[OF conjunct1[OF h] conjunct2[OF h]]
  obtain more where "events (startStream env this request st)
           = [Log LInfo ''%s: HomeKit video stream request received: %sx%s, %s fps, %s kbps.''
                [name this, string_of_number (width (video request)),
                 string_of_number (height (video request)), string_of_number (fps (video request)),
                 string_of_number (video_max_bit_rate (video request))],
              Spawn (FfmpegProcess (sessionID request) (fcmd this request sessionInfo)
                 (if hasLibFdk sessionInfo \<and> twoWayAudio this then None
                  else Some (addressVersion sessionInfo, videoReturnPort sessionInfo))
                 True)] @ more"
    by blast
  then show "hd (filter is_spawn (events (startStream env this request st)))
           = Spawn (FfmpegProcess (sessionID request) (fcmd this request sessionInfo)
               (if hasLibFdk sessionInfo \<and> twoWayAudio this then None
                else Some (addressVersion sessionInfo, videoReturnPort sessionInfo))
               True)"
    by (simp add: is_spawn_def)
qed

theorem packet_sizes_verbatim_witness:
  "map_of (pendingSessions negotiated_a) (sessionID start_a) = Some session_a
   \<and> ffmpeg_launch home_env
        (FfmpegProcess (sessionID start_a) (fcmd garage start_a session_a)
           (if hasLibFdk session_a \<and> twoWayAudio garage then None
            else Some (addressVersion session_a, videoReturnPort session_a))
           True) = None
   \<and> hd (filter is_spawn (events (startStream home_env garage start_a negotiated_a)))
       = Spawn (FfmpegProcess ''a''
           ''-hide_banner -rtsp_transport tcp -i rtsp://192.168.1.1:7447/abcdef -map 0:v -vcodec copy -f rawvideo -pix_fmt yuvj420p -r 30  -b:v 299k -bufsize 598k -maxrate 299k -payload_type 99 -ssrc 1001 -f rtp -srtp_out_suite AES_CM_128_HMAC_SHA1_80 -srtp_out_params AAECAwQFBgcICQoLDA0ODxAREhMUFRYXGBkaGxwd srtp://192.168.1.77:51000?rtcpport=51000&localrtcpport=51000&pkt_size=564 -map 0:a -acodec libfdk_aac -profile:a aac_eld -flags +global_header -f null -ar 16k -b:a 24k -bufsize 48k -ac 1 -payload_type 110 -ssrc 1000 -f rtp -srtp_out_suite AES_CM_128_HMAC_SHA1_80 -srtp_out_params AAECAwQFBgcICQoLDA0ODxAREhMUFRYXGBkaGxwd srtp://192.168.1.77:51002?rtcpport=51002&localrtcpport=51002&pkt_size=188''
           (Some (''ipv4'', 50002)) True)"
proof -
  have p: "map_of (pendingSessions negotiated_a) (sessionID start_a) = Some session_a"
    by (simp add: negotiated_a_def start_a_def)
  have l: "ffmpeg_launch home_env
        (FfmpegProcess (sessionID start_a) (fcmd garage start_a session_a)
           (if hasLibFdk session_a \<and> twoWayAudio garage then None
            else Some (addressVersion session_a, videoReturnPort session_a))
           True) = None"
    by (simp add: home_env_def)
  have a: "(if hasLibFdk session_a \<and> twoWayAudio garage then None
            else Some (addressVersion session_a, videoReturnPort session_a))
           = Some (''ipv4'', 50002)"
    by (simp add: session_a_def garage_def)
  have s: "sessionID start_a = ''a''" by (simp add: start_a_def)
  from packet_sizes_verbatim [of session_a garage start_a negotiated_a home_env] p l
  have "hd (filter is_spawn (events (startStream home_env garage start_a negotiated_a)))
       = Spawn (FfmpegProcess (sessionID start_a) (fcmd garage start_a session_a)
           (if hasLibFdk session_a \<and> twoWayAudio garage then None
            else Some (addressVersion session_a, videoReturnPort session_a))
           True)"
    by blast
  then have "hd (filter is_spawn (events (startStream home_env garage start_a negotiated_a)))
       = Spawn (FfmpegProcess ''a''
           ''-hide_banner -rtsp_transport tcp -i rtsp://192.168.1.1:7447/abcdef -map 0:v -vcodec copy -f rawvideo -pix_fmt yuvj420p -r 30  -b:v 299k -bufsize 598k -maxrate 299k -payload_type 99 -ssrc 1001 -f rtp -srtp_out_suite AES_CM_128_HMAC_SHA1_80 -srtp_out_params AAECAwQFBgcICQoLDA0ODxAREhMUFRYXGBkaGxwd srtp://192.168.1.77:51000?rtcpport=51000&localrtcpport=51000&pkt_size=564 -map 0:a -acodec libfdk_aac -profile:a aac_eld -flags +global_header -f null -ar 16k -b:a 24k -bufsize 48k -ac 1 -payload_type 110 -ssrc 1000 -f rtp -srtp_out_suite AES_CM_128_HMAC_SHA1_80 -srtp_out_params AAECAwQFBgcICQoLDA0ODxAREhMUFRYXGBkaGxwd srtp://192.168.1.77:51002?rtcpport=51002&localrtcpport=51002&pkt_size=188''
           (Some (''ipv4'', 50002)) True)"
    by (simp only: fcmd_a a s)
  with p l show ?thesis by blast
qed





section \<open>The session description of the talkback process\<close>

text \<open>
  For every address version other than \<^verbatim>\<open>"ipv6"\<close> the message is the literal structure
  with \<^verbatim>\<open>IP4\<close>. For \<^verbatim>\<open>"ipv6"\<close> the version string is \<^verbatim>\<open>"IP6 "\<close>, with a space at
  its end, and the originator and connection lines get two spaces after it.
\<close>

lemma sdp_ipv4:
  "addressVersion sessionInfo \<noteq> ''ipv6'' \<Longrightarrow>
   sdpReturnAudio this sessionInfo = join [CHR 0x0A]
     [''v=0'',
      ''o=- 0 0 IN IP4 127.0.0.1'',
      ''s='' @ name this @ '' Audio Talkback'',
      ''c=IN IP4 '' @ address sessionInfo,
      ''t=0 0'',
      ''m=audio '' @ string_of_number (audioTwoWayPort sessionInfo) @ '' RTP/AVP 110'',
      ''b=AS:24'',
      ''a=rtpmap:110 MPEG4-GENERIC/16000/1'',
      ''a=fmtp:110 profile-level-id=1;mode=AAC-hbr;sizelength=13;indexlength=3;indexdeltalength=3; config=F8F0212C00BC00'',
      ''a=crypto:1 AES_CM_128_HMAC_SHA1_80 inline:'' @ base64 (audioSRTP sessionInfo)]"
  by (simp add: sdpReturnAudio_def sdpIpVersion_def)

lemma sdp_ipv6:
  "addressVersion sessionInfo = ''ipv6'' \<Longrightarrow>
   sdpReturnAudio this sessionInfo = join [CHR 0x0A]
     [''v=0'',
      ''o=- 0 0 IN IP6  127.0.0.1'',
      ''s='' @ name this @ '' Audio Talkback'',
      ''c=IN IP6  '' @ address sessionInfo,
      ''t=0 0'',
      ''m=audio '' @ string_of_number (audioTwoWayPort sessionInfo) @ '' RTP/AVP 110'',
      ''b=AS:24'',
      ''a=rtpmap:110 MPEG4-GENERIC/16000/1'',
      ''a=fmtp:110 profile-level-id=1;mode=AAC-hbr;sizelength=13;indexlength=3;indexdeltalength=3; config=F8F0212C00BC00'',
      ''a=crypto:1 AES_CM_128_HMAC_SHA1_80 inline:'' @ base64 (audioSRTP sessionInfo)]"
  by (simp add: sdpReturnAudio_def sdpIpVersion_def)

text \<open>
  Claim C6, at an IPv6 session of the doorbell. After the negotiation of \<open>prepare_a6\<close> and
  the start of the session, the message written to the standard input of the talkback process
  has the originator line \<^verbatim>\<open>o=- 0 0 IN IP6  127.0.0.1\<close> with two spaces before the
  address, which is not the line \<^verbatim>\<open>o=- 0 0 IN IP6 127.0.0.1\<close> of the claim; the connection
  line has the same two spaces. The crypto line does carry the base64 text of the key and
  salt of the negotiation.
\<close>

theorem sdp_ipv6_originator:
  "stdin_written
     (events (startStream home_env doorbell start_a
                (after (prepareStream home_env doorbell prepare_a6 no_sessions))))
   = [join [CHR 0x0A]
        [''v=0'',
         ''o=- 0 0 IN IP6  127.0.0.1'',
         ''s=Doorbell Audio Talkback'',
         ''c=IN IP6  fe80::77'',
         ''t=0 0'',
         ''m=audio 50004 RTP/AVP 110'',
         ''b=AS:24'',
         ''a=rtpmap:110 MPEG4-GENERIC/16000/1'',
         ''a=fmtp:110 profile-level-id=1;mode=AAC-hbr;sizelength=13;indexlength=3;indexdeltalength=3; config=F8F0212C00BC00'',
         ''a=crypto:1 AES_CM_128_HMAC_SHA1_80 inline:AAECAwQFBgcICQoLDA0ODxAREhMUFRYXGBkaGxwd'']]
   \<and> ''o=- 0 0 IN IP6  127.0.0.1'' \<noteq> ''o=- 0 0 IN IP6 127.0.0.1''"
  by (simp add: startStream_def startTwoWay_def push_ffmpeg_def prepareStream_def Let_def
      reserve_when_def getDefaultIpAddress_def
      sdpReturnAudio_def sdpIpVersion_def string_of_number_def digits.simps b64_def
      srtp_key16_def srtp_salt14_def home_env_def doorbell_def garage_def start_a_def
      prepare_a6_def prepare_a_def no_sessions_def)

text \<open>
  Hence what the talkback process reads is not the message that the literal structure gives
  for this session (one space on each side of \<^verbatim>\<open>IP6\<close>).
\<close>

theorem sdp_ipv6_originator_witness:
  "stdin_written
     (events (startStream home_env doorbell start_a
                (after (prepareStream home_env doorbell prepare_a6 no_sessions))))
   \<noteq> [join [CHR 0x0A]
        [''v=0'',
         ''o=- 0 0 IN IP6 127.0.0.1'',
         ''s=Doorbell Audio Talkback'',
         ''c=IN IP6 fe80::77'',
         ''t=0 0'',
         ''m=audio 50004 RTP/AVP 110'',
         ''b=AS:24'',
         ''a=rtpmap:110 MPEG4-GENERIC/16000/1'',
         ''a=fmtp:110 profile-level-id=1;mode=AAC-hbr;sizelength=13;indexlength=3;indexdeltalength=3; config=F8F0212C00BC00'',
         ''a=crypto:1 AES_CM_128_HMAC_SHA1_80 inline:AAECAwQFBgcICQoLDA0ODxAREhMUFRYXGBkaGxwd'']]"
  using sdp_ipv6_originator by simp

section \<open>Negotiation\<close>

lemma getDefaultIpAddress_external:
  "networkInterfaceDefault env = Inr n \<Longrightarrow>
   getDefaultIpAddress env v =
     Inr (case find (\<lambda>info. family info = (if v = ''ipv6'' then ''IPv6'' else ''IPv4''))
               (external_addresses env) of
            Some info \<Rightarrow> Some (info_address info)
          | None \<Rightarrow> (case external_addresses env of
                       [] \<Rightarrow> None
                     | info # rest \<Rightarrow> Some (info_address info)))"
  by (simp add: getDefaultIpAddress_def external_addresses_def Let_def
      split: option.splits list.splits)

lemma getDefaultIpAddress_completes:
  "completes (getDefaultIpAddress env v) = completes (networkInterfaceDefault env)"
  by (simp add: getDefaultIpAddress_def completes_def Let_def split: sum.splits)

lemma reserve_when_cases:
  "reserve_when env cond n v c = (evs, r) \<Longrightarrow>
   (cond \<and> evs = [ReservePorts v c] \<and> r = reservePorts env n c)
   \<or> (\<not> cond \<and> evs = [] \<and> r = Inr (- 1))"
  by (auto simp: reserve_when_def split: if_splits)

text \<open>The five places where a negotiation can end early, and its completion.\<close>

lemma prepareStream_stage0:
  "codecEnabled env (videoProcessor this) ''libfdk_aac'' = Inl e \<Longrightarrow>
   prepareStream env this request st =
     \<lparr>after = st, events = [CodecEnabled (videoProcessor this) ''libfdk_aac''],
      returned = Inl e\<rparr>"
  by (simp add: prepareStream_def)

lemma prepareStream_stage1:
  "codecEnabled env (videoProcessor this) ''libfdk_aac'' = Inr b \<Longrightarrow>
   reservePorts env 0 None = Inl e \<Longrightarrow>
   prepareStream env this request st =
     \<lparr>after = st,
      events = [CodecEnabled (videoProcessor this) ''libfdk_aac'',
                ReservePorts ''audioReturnPort'' None],
      returned = Inl e\<rparr>"
  by (simp add: prepareStream_def Let_def)

lemma prepareStream_stage2:
  "codecEnabled env (videoProcessor this) ''libfdk_aac'' = Inr b \<Longrightarrow>
   reservePorts env 0 None = Inr p0 \<Longrightarrow>
   reserve_when env (b \<and> twoWayAudio this) 1 ''audioServerPort'' None = (evs2, Inl e) \<Longrightarrow>
   prepareStream env this request st =
     \<lparr>after = st,
      events = [CodecEnabled (videoProcessor this) ''libfdk_aac'',
                ReservePorts ''audioReturnPort'' None] @ evs2,
      returned = Inl e\<rparr>"
  by (simp add: prepareStream_def Let_def)

lemma prepareStream_stage3:
  "codecEnabled env (videoProcessor this) ''libfdk_aac'' = Inr b \<Longrightarrow>
   reservePorts env 0 None = Inr p0 \<Longrightarrow>
   reserve_when env (b \<and> twoWayAudio this) 1 ''audioServerPort'' None = (evs2, Inr p1) \<Longrightarrow>
   reserve_when env (b \<and> twoWayAudio this) 2 ''audioTwoWayPort'' (Some 2) = (evs3, Inl e) \<Longrightarrow>
   prepareStream env this request st =
     \<lparr>after = st,
      events = [CodecEnabled (videoProcessor this) ''libfdk_aac'',
                ReservePorts ''audioReturnPort'' None] @ evs2 @ evs3,
      returned = Inl e\<rparr>"
  by (simp add: prepareStream_def Let_def)

lemma prepareStream_stage4:
  "codecEnabled env (videoProcessor this) ''libfdk_aac'' = Inr b \<Longrightarrow>
   reservePorts env 0 None = Inr p0 \<Longrightarrow>
   reserve_when env (b \<and> twoWayAudio this) 1 ''audioServerPort'' None = (evs2, Inr p1) \<Longrightarrow>
   reserve_when env (b \<and> twoWayAudio this) 2 ''audioTwoWayPort'' (Some 2) = (evs3, Inr p2) \<Longrightarrow>
   reservePorts env (if b \<and> twoWayAudio this then 3 else 1) None = Inl e \<Longrightarrow>
   prepareStream env this request st =
     \<lparr>after = st, events = negotiation_events this request b p0 evs2 p1 evs3 p2,
      returned = Inl e\<rparr>"
  by (simp add: prepareStream_def Let_def negotiation_events_def)

lemma prepareStream_stage5:
  "codecEnabled env (videoProcessor this) ''libfdk_aac'' = Inr b \<Longrightarrow>
   reservePorts env 0 None = Inr p0 \<Longrightarrow>
   reserve_when env (b \<and> twoWayAudio this) 1 ''audioServerPort'' None = (evs2, Inr p1) \<Longrightarrow>
   reserve_when env (b \<and> twoWayAudio this) 2 ''audioTwoWayPort'' (Some 2) = (evs3, Inr p2) \<Longrightarrow>
   reservePorts env (if b \<and> twoWayAudio this then 3 else 1) None = Inr pv \<Longrightarrow>
   getDefaultIpAddress env (prep_addressVersion request) = Inl e \<Longrightarrow>
   prepareStream env this request st =
     \<lparr>after = st,
      events = negotiation_events this request b p0 evs2 p1 evs3 p2
               @ [GenerateSynchronisationSource ''videoSSRC''],
      returned = Inl e\<rparr>"
  by (simp add: prepareStream_def Let_def negotiation_events_def)

lemma prepareStream_done:
  "codecEnabled env (videoProcessor this) ''libfdk_aac'' = Inr b \<Longrightarrow>
   reservePorts env 0 None = Inr p0 \<Longrightarrow>
   reserve_when env (b \<and> twoWayAudio this) 1 ''audioServerPort'' None = (evs2, Inr p1) \<Longrightarrow>
   reserve_when env (b \<and> twoWayAudio this) 2 ''audioTwoWayPort'' (Some 2) = (evs3, Inr p2) \<Longrightarrow>
   reservePorts env (if b \<and> twoWayAudio this then 3 else 1) None = Inr pv \<Longrightarrow>
   getDefaultIpAddress env (prep_addressVersion request) = Inr addr \<Longrightarrow>
   prepareStream env this request st =
     \<lparr>after = st\<lparr>pendingSessions :=
          AList.update (prep_sessionID request)
            \<lparr>address = targetAddress request,
             addressVersion = prep_addressVersion request,
             videoPort = port (prep_video request),
             videoReturnPort = pv,
             videoCryptoSuite = srtpCryptoSuite (prep_video request),
             videoSRTP = srtp_key (prep_video request) @ srtp_salt (prep_video request),
             videoSSRC = generateSynchronisationSource env 1,
             hasLibFdk = b,
             audioPort = port (prep_audio request),
             audioReturnPort = p0,
             audioTwoWayPort = p2,
             rtpSplitter = (if b \<and> twoWayAudio this
                            then Some (RtpSplitter (prep_addressVersion request) p1 p0 p2)
                            else None),
             audioCryptoSuite = srtpCryptoSuite (prep_audio request),
             audioSRTP = srtp_key (prep_audio request) @ srtp_salt (prep_audio request),
             audioSSRC = generateSynchronisationSource env 0\<rparr>
            (pendingSessions st)\<rparr>,
      events = negotiation_events this request b p0 evs2 p1 evs3 p2
               @ [GenerateSynchronisationSource ''videoSSRC''],
      returned =
        Inr \<lparr>resp_address = addr,
             resp_video =
               \<lparr>resp_port = pv, ssrc = generateSynchronisationSource env 1,
                resp_srtp_key = srtp_key (prep_video request),
                resp_srtp_salt = srtp_salt (prep_video request)\<rparr>,
             resp_audio =
               \<lparr>resp_port = (if b \<and> twoWayAudio this then p1 else p0),
                ssrc = generateSynchronisationSource env 0,
                resp_srtp_key = srtp_key (prep_audio request),
                resp_srtp_salt = srtp_salt (prep_audio request)\<rparr>\<rparr>\<rparr>"
  by (simp add: prepareStream_def Let_def negotiation_events_def)

lemma prepareStream_outcome:
  fixes env this request st
  defines "full \<equiv> \<lambda>b. (if b \<and> twoWayAudio this
        then [ReservePorts ''audioReturnPort'' None, ReservePorts ''audioServerPort'' None,
              ReservePorts ''audioTwoWayPort'' (Some 2), ReservePorts ''videoReturnPort'' None]
        else [ReservePorts ''audioReturnPort'' None, ReservePorts ''videoReturnPort'' None])"
  shows
  "(\<exists>e evs. prepareStream env this request st = \<lparr>after = st, events = evs, returned = Inl e\<rparr>
       \<and> \<not> awaits_complete env this
       \<and> (\<forall>b. codecEnabled env (videoProcessor this) ''libfdk_aac'' = Inr b
             \<longrightarrow> prefix [ReservePorts ''audioReturnPort'' None] (filter is_reserve evs)
               \<and> prefix (filter is_reserve evs) (full b)))
   \<or> (\<exists>b p0 evs2 p1 evs3 p2 pv addr.
         codecEnabled env (videoProcessor this) ''libfdk_aac'' = Inr b
       \<and> reservePorts env 0 None = Inr p0
       \<and> reserve_when env (b \<and> twoWayAudio this) 1 ''audioServerPort'' None = (evs2, Inr p1)
       \<and> reserve_when env (b \<and> twoWayAudio this) 2 ''audioTwoWayPort'' (Some 2) = (evs3, Inr p2)
       \<and> reservePorts env (if b \<and> twoWayAudio this then 3 else 1) None = Inr pv
       \<and> getDefaultIpAddress env (prep_addressVersion request) = Inr addr
       \<and> awaits_complete env this
       \<and> filter is_reserve (negotiation_events this request b p0 evs2 p1 evs3 p2) = full b)"
proof (cases "codecEnabled env (videoProcessor this) ''libfdk_aac''")
  case (Inl e)
  have "\<not> awaits_complete env this" by (simp add: awaits_complete_def Inl)
  with prepareStream_stage0[OF Inl, of request st] Inl show ?thesis by auto
next
  case c: (Inr b)
  show ?thesis
  proof (cases "reservePorts env 0 None")
    case (Inl e)
    have "\<not> awaits_complete env this" by (simp add: awaits_complete_def c Inl completes_def)
    moreover have "prefix [ReservePorts ''audioReturnPort'' None]
        (filter is_reserve [CodecEnabled (videoProcessor this) ''libfdk_aac'',
                ReservePorts ''audioReturnPort'' None])
      \<and> prefix (filter is_reserve [CodecEnabled (videoProcessor this) ''libfdk_aac'',
                ReservePorts ''audioReturnPort'' None]) (full b)"
      by (simp add: is_reserve_def full_def)
    ultimately show ?thesis using prepareStream_stage1[OF c Inl, of request st] c by auto
  next
    case r0: (Inr p0)
    obtain evs2 x1 where r1: "reserve_when env (b \<and> twoWayAudio this) 1 ''audioServerPort'' None
        = (evs2, x1)"
      by (cases "reserve_when env (b \<and> twoWayAudio this) 1 ''audioServerPort'' None")
    show ?thesis
    proof (cases x1)
      case (Inl e)
      from reserve_when_cases[OF r1] Inl
      have t: "b \<and> twoWayAudio this" and e2: "evs2 = [ReservePorts ''audioServerPort'' None]"
        and f: "reservePorts env 1 None = Inl e" by auto
      have "\<not> awaits_complete env this"
        using t f by (simp add: awaits_complete_def c completes_def)
      moreover have "prefix [ReservePorts ''audioReturnPort'' None]
          (filter is_reserve ([CodecEnabled (videoProcessor this) ''libfdk_aac'',
                  ReservePorts ''audioReturnPort'' None] @ evs2))
        \<and> prefix (filter is_reserve ([CodecEnabled (videoProcessor this) ''libfdk_aac'',
                  ReservePorts ''audioReturnPort'' None] @ evs2)) (full b)"
        using t by (simp add: is_reserve_def full_def e2)
      ultimately show ?thesis
        using prepareStream_stage2[OF c r0 r1[unfolded Inl], of request st] c by auto
    next
      case x1: (Inr p1)
      note r1 = r1[unfolded x1]
      obtain evs3 x2 where r2: "reserve_when env (b \<and> twoWayAudio this) 2 ''audioTwoWayPort''
          (Some 2) = (evs3, x2)"
        by (cases "reserve_when env (b \<and> twoWayAudio this) 2 ''audioTwoWayPort'' (Some 2)")
      have e2: "evs2 = (if b \<and> twoWayAudio this then [ReservePorts ''audioServerPort'' None] else [])"
        using reserve_when_cases[OF r1] by auto
      have f1: "b \<and> twoWayAudio this \<Longrightarrow> reservePorts env 1 None = Inr p1"
        using reserve_when_cases[OF r1] by auto
      show ?thesis
      proof (cases x2)
        case (Inl e)
        from reserve_when_cases[OF r2] Inl
        have t: "b \<and> twoWayAudio this" and e3: "evs3 = [ReservePorts ''audioTwoWayPort'' (Some 2)]"
          and f: "reservePorts env 2 (Some 2) = Inl e" by auto
        have "\<not> awaits_complete env this"
          using t f by (simp add: awaits_complete_def c completes_def)
        moreover have "prefix [ReservePorts ''audioReturnPort'' None]
            (filter is_reserve ([CodecEnabled (videoProcessor this) ''libfdk_aac'',
                    ReservePorts ''audioReturnPort'' None] @ evs2 @ evs3))
          \<and> prefix (filter is_reserve ([CodecEnabled (videoProcessor this) ''libfdk_aac'',
                    ReservePorts ''audioReturnPort'' None] @ evs2 @ evs3)) (full b)"
          using t by (simp add: is_reserve_def full_def e2 e3)
        ultimately show ?thesis
          using prepareStream_stage3[OF c r0 r1 r2[unfolded Inl], of request st] c by auto
      next
        case x2: (Inr p2)
        note r2 = r2[unfolded x2]
        have e3: "evs3 = (if b \<and> twoWayAudio this
                          then [ReservePorts ''audioTwoWayPort'' (Some 2)] else [])"
          using reserve_when_cases[OF r2] by auto
        have f2: "b \<and> twoWayAudio this \<Longrightarrow> reservePorts env 2 (Some 2) = Inr p2"
          using reserve_when_cases[OF r2] by auto
        have fl: "filter is_reserve (negotiation_events this request b p0 evs2 p1 evs3 p2) = full b"
          by (simp add: negotiation_events_def is_reserve_def full_def e2 e3)
        show ?thesis
        proof (cases "reservePorts env (if b \<and> twoWayAudio this then 3 else 1) None")
          case (Inl e)
          have "\<not> awaits_complete env this"
            using Inl by (auto simp: awaits_complete_def c completes_def split: if_splits)
          moreover have "prefix [ReservePorts ''audioReturnPort'' None]
              (filter is_reserve (negotiation_events this request b p0 evs2 p1 evs3 p2))
            \<and> prefix (filter is_reserve (negotiation_events this request b p0 evs2 p1 evs3 p2))
                (full b)"
            unfolding fl by (simp add: full_def)
          ultimately show ?thesis
            using prepareStream_stage4[OF c r0 r1 r2 Inl, of request st] c by auto
        next
          case r3: (Inr pv)
          show ?thesis
          proof (cases "getDefaultIpAddress env (prep_addressVersion request)")
            case (Inl e)
            have "\<not> completes (networkInterfaceDefault env)"
              using getDefaultIpAddress_completes[of env "prep_addressVersion request"] Inl
              by (simp add: completes_def)
            then have "\<not> awaits_complete env this"
              by (simp add: awaits_complete_def c)
            moreover have "prefix [ReservePorts ''audioReturnPort'' None]
                (filter is_reserve (negotiation_events this request b p0 evs2 p1 evs3 p2
                    @ [GenerateSynchronisationSource ''videoSSRC'']))
              \<and> prefix (filter is_reserve (negotiation_events this request b p0 evs2 p1 evs3 p2
                    @ [GenerateSynchronisationSource ''videoSSRC''])) (full b)"
              by (simp add: fl is_reserve_def) (simp add: full_def)
            ultimately show ?thesis
              using prepareStream_stage5[OF c r0 r1 r2 r3 Inl, of st] c by auto
          next
            case a: (Inr addr)
            have "completes (networkInterfaceDefault env)"
              using getDefaultIpAddress_completes[of env "prep_addressVersion request"] a
              by (simp add: completes_def)
            then have "awaits_complete env this"
              using r0 r3 f1 f2 by (auto simp: awaits_complete_def c completes_def)
            with c r0 r1 r2 r3 a fl show ?thesis by blast
          qed
        qed
      qed
    qed
  qed
qed

lemma prepareStream_fulfilled:
  assumes "returned (prepareStream env this request st) = Inr response"
  obtains b p0 evs2 p1 evs3 p2 pv addr where
    "codecEnabled env (videoProcessor this) ''libfdk_aac'' = Inr b"
    "reservePorts env 0 None = Inr p0"
    "reserve_when env (b \<and> twoWayAudio this) 1 ''audioServerPort'' None = (evs2, Inr p1)"
    "reserve_when env (b \<and> twoWayAudio this) 2 ''audioTwoWayPort'' (Some 2) = (evs3, Inr p2)"
    "reservePorts env (if b \<and> twoWayAudio this then 3 else 1) None = Inr pv"
    "getDefaultIpAddress env (prep_addressVersion request) = Inr addr"
    "filter is_reserve (negotiation_events this request b p0 evs2 p1 evs3 p2) =
       (if b \<and> twoWayAudio this
        then [ReservePorts ''audioReturnPort'' None, ReservePorts ''audioServerPort'' None,
              ReservePorts ''audioTwoWayPort'' (Some 2), ReservePorts ''videoReturnPort'' None]
        else [ReservePorts ''audioReturnPort'' None, ReservePorts ''videoReturnPort'' None])"
  using prepareStream_outcome[of env this request st] assms by fastforce

lemmas negotiate_defs = prepareStream_def reserve_when_def getDefaultIpAddress_def Let_def

lemma response_a:
  "returned (prepareStream home_env garage prepare_a no_sessions) =
       Inr \<lparr>resp_address = Some ''192.168.1.5'',
            resp_video = \<lparr>resp_port = 50002, ssrc = 1001, resp_srtp_key = srtp_key16,
                          resp_srtp_salt = srtp_salt14\<rparr>,
            resp_audio = \<lparr>resp_port = 50000, ssrc = 1000, resp_srtp_key = srtp_key16,
                          resp_srtp_salt = srtp_salt14\<rparr>\<rparr>"
  by (simp add: negotiate_defs home_env_def garage_def prepare_a_def no_sessions_def)

text \<open>
  Claim C7, as the code has it. A negotiation is rejected exactly when one of the calls it
  awaits is (the codec probe, a port reservation, the query for the default interface), and
  then nothing is stored. The addresses of the interface never make it fail: when the awaited
  calls complete and the default interface has no non-internal address of the family asked
  for, the response carries the first non-internal address of that interface, whatever its
  family, or \<^verbatim>\<open>null\<close> when the interface has no non-internal address or is unknown; the
  callback gets that response and the pending session is stored.
\<close>

theorem negotiate_without_matching_address:
  "(completes (returned (prepareStream env this request st)) \<longleftrightarrow> awaits_complete env this)
   \<and> (awaits_complete env this
       \<and> find (\<lambda>info. family info
                  = (if prep_addressVersion request = ''ipv6'' then ''IPv6'' else ''IPv4''))
            (external_addresses env) = None
      \<longrightarrow> (\<exists>response. returned (prepareStream env this request st) = Inr response
             \<and> resp_address response
                 = (case external_addresses env of
                      [] \<Rightarrow> None
                    | info # rest \<Rightarrow> Some (info_address info)))
        \<and> map_of (pendingSessions (after (prepareStream env this request st)))
             (prep_sessionID request) \<noteq> None)
   \<and> (\<forall>e. returned (prepareStream env this request st) = Inl e
        \<longrightarrow> after (prepareStream env this request st) = st)"
proof -
  let ?r = "prepareStream env this request st"
  from prepareStream_outcome[of env this request st]
  consider (rejected) e evs where "?r = \<lparr>after = st, events = evs, returned = Inl e\<rparr>"
      "\<not> awaits_complete env this"
    | (fulfilled) b p0 evs2 p1 evs3 p2 pv addr where
      "codecEnabled env (videoProcessor this) ''libfdk_aac'' = Inr b"
      "reservePorts env 0 None = Inr p0"
      "reserve_when env (b \<and> twoWayAudio this) 1 ''audioServerPort'' None = (evs2, Inr p1)"
      "reserve_when env (b \<and> twoWayAudio this) 2 ''audioTwoWayPort'' (Some 2) = (evs3, Inr p2)"
      "reservePorts env (if b \<and> twoWayAudio this then 3 else 1) None = Inr pv"
      "getDefaultIpAddress env (prep_addressVersion request) = Inr addr"
      "awaits_complete env this"
    by blast
  then show ?thesis
  proof cases
    case rejected
    then show ?thesis by (simp add: completes_def)
  next
    case fulfilled
    note d = prepareStream_done[OF fulfilled(1-6), of st]
    have c: "completes (networkInterfaceDefault env)"
      using getDefaultIpAddress_completes[of env "prep_addressVersion request"] fulfilled(6)
      by (simp add: completes_def)
    then obtain n where n: "networkInterfaceDefault env = Inr n"
      by (cases "networkInterfaceDefault env") (simp_all add: completes_def)
    have a: "addr = (case external_addresses env of
                      [] \<Rightarrow> None
                    | info # rest \<Rightarrow> Some (info_address info))"
      if "find (\<lambda>info. family info
                  = (if prep_addressVersion request = ''ipv6'' then ''IPv6'' else ''IPv4''))
            (external_addresses env) = None"
      using getDefaultIpAddress_external[OF n, of "prep_addressVersion request"] fulfilled(6) that
      by simp
    have s: "map_of (pendingSessions (after ?r)) (prep_sessionID request) \<noteq> None"
      by (simp add: d AList.update_conv')
    have k1: "completes (returned ?r)" by (simp add: d completes_def)
    have k2: "\<exists>response. returned ?r = Inr response \<and> resp_address response = addr"
      by (simp add: d)
    have k3: "\<forall>e. returned ?r = Inl e \<longrightarrow> after ?r = st" by (simp add: d)
    show ?thesis
    proof (intro conjI impI)
      show "completes (returned ?r) \<longleftrightarrow> awaits_complete env this"
        using k1 fulfilled(7) by simp
      show "\<forall>e. returned ?r = Inl e \<longrightarrow> after ?r = st" by (rule k3)
    next
      assume h: "awaits_complete env this
       \<and> find (\<lambda>info. family info
                  = (if prep_addressVersion request = ''ipv6'' then ''IPv6'' else ''IPv4''))
            (external_addresses env) = None"
      show "\<exists>response. returned ?r = Inr response
             \<and> resp_address response
                 = (case external_addresses env of
                      [] \<Rightarrow> None
                    | info # rest \<Rightarrow> Some (info_address info))"
        using k2 a[OF conjunct2[OF h]] by blast
      show "map_of (pendingSessions (after ?r)) (prep_sessionID request) \<noteq> None" by (rule s)
    qed
  qed
qed

theorem negotiate_without_matching_address_witness:
  "awaits_complete offline_env garage
   \<and> find (\<lambda>info. family info
             = (if prep_addressVersion prepare_a = ''ipv6'' then ''IPv6'' else ''IPv4''))
       (external_addresses offline_env) = None
   \<and> returned (prepareStream offline_env garage prepare_a no_sessions) =
       Inr \<lparr>resp_address = None,
            resp_video = \<lparr>resp_port = 50002, ssrc = 1001, resp_srtp_key = srtp_key16,
                          resp_srtp_salt = srtp_salt14\<rparr>,
            resp_audio = \<lparr>resp_port = 50000, ssrc = 1000, resp_srtp_key = srtp_key16,
                          resp_srtp_salt = srtp_salt14\<rparr>\<rparr>
   \<and> map_of (pendingSessions (after (prepareStream offline_env garage prepare_a no_sessions)))
        (prep_sessionID prepare_a) \<noteq> None
   \<and> \<not> awaits_complete exhausted_env garage
   \<and> returned (prepareStream exhausted_env garage prepare_a no_sessions)
       = Inl (Thrown ''no port available'')
   \<and> after (prepareStream exhausted_env garage prepare_a no_sessions) = no_sessions"
proof -
  have h1: "awaits_complete offline_env garage"
    by (simp add: awaits_complete_def completes_def offline_env_def home_env_def garage_def)
  have h2: "find (\<lambda>info. family info
             = (if prep_addressVersion prepare_a = ''ipv6'' then ''IPv6'' else ''IPv4''))
       (external_addresses offline_env) = None"
    by (simp add: external_addresses_def offline_env_def home_env_def prepare_a_def)
  have r1: "returned (prepareStream offline_env garage prepare_a no_sessions) =
       Inr \<lparr>resp_address = None,
            resp_video = \<lparr>resp_port = 50002, ssrc = 1001, resp_srtp_key = srtp_key16,
                          resp_srtp_salt = srtp_salt14\<rparr>,
            resp_audio = \<lparr>resp_port = 50000, ssrc = 1000, resp_srtp_key = srtp_key16,
                          resp_srtp_salt = srtp_salt14\<rparr>\<rparr>"
    by (simp add: negotiate_defs offline_env_def home_env_def garage_def prepare_a_def
        no_sessions_def)
  have h3: "returned (prepareStream exhausted_env garage prepare_a no_sessions)
       = Inl (Thrown ''no port available'')"
    by (simp add: negotiate_defs exhausted_env_def home_env_def garage_def prepare_a_def
        no_sessions_def)
  note t1 = negotiate_without_matching_address [of offline_env garage prepare_a no_sessions]
  note t2 = negotiate_without_matching_address [of exhausted_env garage prepare_a no_sessions]
  from t1 h1 h2
  have c1: "map_of (pendingSessions (after (prepareStream offline_env garage prepare_a no_sessions)))
        (prep_sessionID prepare_a) \<noteq> None"
    by blast
  from t2 h3
  have c2: "\<not> awaits_complete exhausted_env garage"
    and c3: "after (prepareStream exhausted_env garage prepare_a no_sessions) = no_sessions"
    by (simp_all add: completes_def)
  from h1 h2 r1 c1 c2 h3 c3 show ?thesis by blast
qed

text \<open>
  The claim as it was stated fails on an IPv6 request to a host whose default interface has
  an IPv4 address only: the response is a success with the IPv4 address, and the session is
  pending.
\<close>

theorem negotiate_other_family_counterexample:
  "find (\<lambda>info. family info = ''IPv6'') (external_addresses home_env) = None
   \<and> returned (prepareStream home_env garage prepare_a6 no_sessions) =
       Inr \<lparr>resp_address = Some ''192.168.1.5'',
            resp_video = \<lparr>resp_port = 50002, ssrc = 1001, resp_srtp_key = srtp_key16,
                          resp_srtp_salt = srtp_salt14\<rparr>,
            resp_audio = \<lparr>resp_port = 50000, ssrc = 1000, resp_srtp_key = srtp_key16,
                          resp_srtp_salt = srtp_salt14\<rparr>\<rparr>
   \<and> pendingSessions (after (prepareStream home_env garage prepare_a6 no_sessions))
       = [(''a'', session_a\<lparr>address := ''fe80::77'', addressVersion := ''ipv6''\<rparr>)]"
  by (simp add: negotiate_defs external_addresses_def
      home_env_def garage_def prepare_a6_def prepare_a_def no_sessions_def session_a_def)




text \<open>
  Claim C10, as the code has it. The audio identifier of the response is the first value
  drawn from the generator during the negotiation and the video identifier the second; the
  two are distinct exactly when the two drawn values are. Nothing compares them.
\<close>

theorem prepareStream_ssrcs:
  assumes "returned (prepareStream env this request st) = Inr response"
  shows "ssrc (resp_audio response) = generateSynchronisationSource env 0
       \<and> ssrc (resp_video response) = generateSynchronisationSource env 1
       \<and> (ssrc (resp_video response) \<noteq> ssrc (resp_audio response)
            \<longleftrightarrow> generateSynchronisationSource env 1 \<noteq> generateSynchronisationSource env 0)"
proof -
  from assms obtain b p0 evs2 p1 evs3 p2 pv addr where f:
    "codecEnabled env (videoProcessor this) ''libfdk_aac'' = Inr b"
    "reservePorts env 0 None = Inr p0"
    "reserve_when env (b \<and> twoWayAudio this) 1 ''audioServerPort'' None = (evs2, Inr p1)"
    "reserve_when env (b \<and> twoWayAudio this) 2 ''audioTwoWayPort'' (Some 2) = (evs3, Inr p2)"
    "reservePorts env (if b \<and> twoWayAudio this then 3 else 1) None = Inr pv"
    "getDefaultIpAddress env (prep_addressVersion request) = Inr addr"
    by (rule prepareStream_fulfilled)
  from prepareStream_done[OF f, of st] assms show ?thesis by auto
qed

theorem prepareStream_ssrcs_witness:
  "returned (prepareStream home_env garage prepare_a no_sessions) =
       Inr \<lparr>resp_address = Some ''192.168.1.5'',
            resp_video = \<lparr>resp_port = 50002, ssrc = 1001, resp_srtp_key = srtp_key16,
                          resp_srtp_salt = srtp_salt14\<rparr>,
            resp_audio = \<lparr>resp_port = 50000, ssrc = 1000, resp_srtp_key = srtp_key16,
                          resp_srtp_salt = srtp_salt14\<rparr>\<rparr>
   \<and> generateSynchronisationSource home_env 0 = 1000
   \<and> generateSynchronisationSource home_env 1 = 1001"
  using prepareStream_ssrcs [OF response_a] response_a by simp

text \<open>
  The claim as it was stated fails when the generator returns the same value twice in a row.
\<close>

theorem equal_ssrcs_counterexample:
  "returned (prepareStream repeating_env garage prepare_a no_sessions) =
       Inr \<lparr>resp_address = Some ''192.168.1.5'',
            resp_video = \<lparr>resp_port = 50002, ssrc = 4242, resp_srtp_key = srtp_key16,
                          resp_srtp_salt = srtp_salt14\<rparr>,
            resp_audio = \<lparr>resp_port = 50000, ssrc = 4242, resp_srtp_key = srtp_key16,
                          resp_srtp_salt = srtp_salt14\<rparr>\<rparr>"
  by (simp add: negotiate_defs
      repeating_env_def home_env_def garage_def prepare_a_def no_sessions_def)

end
